theory Spec2Isabelle
  imports Main "HOL-Library.Multiset"
begin

section \<open>JSON values as the handlers receive them\<close>

text \<open>
  A JavaScript number is kept at the precision the validators look at: an integer-valued
  double, a finite non-integer, NaN, or an infinity. A string is the list of its code
  units; the handlers only compare strings and take their length.
\<close>

datatype jsnum = Whole int | Fraction | NaN | Infinite

datatype json =
    JNull
  | JBool bool
  | JNum jsnum
  | JStr string
  | JArr "json list"
  | JObj "(string \<times> json) list"

text \<open>
  \<open>input[key]\<close> on a parsed body: \<open>None\<close> is JavaScript's \<open>undefined\<close>. The pairs of
  a \<open>JObj\<close> are the properties of the object \<open>req.json()\<close> returned, one per key.
\<close>

definition get_prop :: "(string \<times> json) list \<Rightarrow> string \<Rightarrow> json option" where
  "get_prop kvs k = map_of kvs k"


subsection \<open>\<open>Number(x)\<close>, the coercion behind \<open>z.coerce.number()\<close>\<close>

definition MAX_SAFE_INTEGER :: int where
  "MAX_SAFE_INTEGER = 9007199254740991"

definition is_digit :: "char \<Rightarrow> bool" where
  "is_digit c = (48 \<le> (of_char c :: nat) \<and> (of_char c :: nat) \<le> 57)"

definition digit_val :: "char \<Rightarrow> nat" where
  "digit_val c = of_char c - 48"

fun digits_value :: "nat \<Rightarrow> string \<Rightarrow> nat" where
  "digits_value acc [] = acc"
| "digits_value acc (c # cs) = digits_value (10 * acc + digit_val c) cs"

text \<open>
  A string of decimal digits, with or without a sign, whose value is at most \<open>2^53\<close> in
  magnitude: every such integer is a double, so \<open>Number\<close> of the string is that integer
  (negative zero is kept as 0).
\<close>

definition digits_number :: "string \<Rightarrow> int option" where
  "digits_number s =
     (if s \<noteq> [] \<and> list_all is_digit s \<and> int (digits_value 0 s) \<le> 2 ^ 53
      then Some (int (digits_value 0 s)) else None)"

definition signed_digits :: "string \<Rightarrow> int option" where
  "signed_digits s =
     (case s of
        [] \<Rightarrow> None
      | c # cs \<Rightarrow>
          if c = CHR ''-'' then map_option uminus (digits_number cs)
          else if c = CHR ''+'' then digits_number cs
          else digits_number s)"

text \<open>
  \<open>Number\<close> is computed here where its result is exact and needs no floating point:
  \<open>undefined\<close>, \<open>null\<close>, booleans, numbers, the empty string, and signed strings of
  decimal digits up to \<open>2^53\<close>. Every other argument (blanks, fractions, exponents,
  hexadecimal, longer digit strings, arrays, objects) is left to \<open>other\<close>, the engine's
  conversion, about which nothing is assumed.
\<close>

definition js_Number :: "(json \<Rightarrow> jsnum) \<Rightarrow> json option \<Rightarrow> jsnum" where
  "js_Number other v =
     (case v of
        None \<Rightarrow> NaN
      | Some JNull \<Rightarrow> Whole 0
      | Some (JBool b) \<Rightarrow> Whole (if b then 1 else 0)
      | Some (JNum n) \<Rightarrow> n
      | Some (JStr s) \<Rightarrow>
          (if s = [] then Whole 0
           else (case signed_digits s of
                   Some n \<Rightarrow> Whole n
                 | None \<Rightarrow> other (JStr s)))
      | Some x \<Rightarrow> other x)"

section \<open>Validators (src/lib/validators.ts)\<close>

text \<open>
  Each field parser returns \<open>None\<close> when zod raises an issue for that field. The codes and
  messages of the issues are zod's; the model keeps the path of each rejected field.
\<close>

type_synonym issue = "string list"

datatype 'a field = Undefined | Null | Val 'a

datatype status = ACTIVE | DISCONTINUED

text \<open>\<open>z.string().min(lo).max(hi)\<close>\<close>

definition z_string :: "nat \<Rightarrow> nat \<Rightarrow> json option \<Rightarrow> string option" where
  "z_string lo hi v =
     (case v of
        Some (JStr s) \<Rightarrow> if lo \<le> length s \<and> length s \<le> hi then Some s else None
      | _ \<Rightarrow> None)"

text \<open>\<open>z.string().max(hi).optional().nullable()\<close>\<close>

definition z_string_opt_null :: "nat \<Rightarrow> json option \<Rightarrow> string field option" where
  "z_string_opt_null hi v =
     (case v of
        None \<Rightarrow> Some Undefined
      | Some JNull \<Rightarrow> Some Null
      | Some (JStr s) \<Rightarrow> if length s \<le> hi then Some (Val s) else None
      | _ \<Rightarrow> None)"

text \<open>
  \<open>.int().min(0)\<close> on a number: \<open>z.number()\<close> rejects NaN and the infinities, \<open>.int()\<close>
  wants a safe integer, \<open>.min(0)\<close> a non-negative one.
\<close>

definition z_int_min0 :: "jsnum \<Rightarrow> int option" where
  "z_int_min0 n =
     (case n of
        Whole i \<Rightarrow>
          if - MAX_SAFE_INTEGER \<le> i \<and> i \<le> MAX_SAFE_INTEGER \<and> 0 \<le> i then Some i else None
      | _ \<Rightarrow> None)"

text \<open>\<open>z.coerce.number().int().min(0)\<close>: coerce first, then check.\<close>

definition z_coerce_int_min0 :: "(json \<Rightarrow> jsnum) \<Rightarrow> json option \<Rightarrow> int option" where
  "z_coerce_int_min0 other v = z_int_min0 (js_Number other v)"

text \<open>\<open>z.coerce.number().int().min(0).default(0)\<close>: \<open>undefined\<close> gives the default unparsed.\<close>

definition z_coerce_int_min0_default :: "(json \<Rightarrow> jsnum) \<Rightarrow> json option \<Rightarrow> int option" where
  "z_coerce_int_min0_default other v =
     (case v of None \<Rightarrow> Some 0 | Some x \<Rightarrow> z_coerce_int_min0 other (Some x))"

text \<open>\<open>z.enum(["ACTIVE", "DISCONTINUED"]).default("ACTIVE")\<close>\<close>

definition z_status_default :: "json option \<Rightarrow> status option" where
  "z_status_default v =
     (case v of
        None \<Rightarrow> Some ACTIVE
      | Some (JStr s) \<Rightarrow>
          if s = ''ACTIVE'' then Some ACTIVE
          else if s = ''DISCONTINUED'' then Some DISCONTINUED
          else None
      | _ \<Rightarrow> None)"

text \<open>\<open>.partial()\<close> wraps a field in \<open>.optional()\<close>: \<open>undefined\<close> passes through.\<close>

definition z_optional :: "(json option \<Rightarrow> 'a option) \<Rightarrow> json option \<Rightarrow> 'a option option" where
  "z_optional p v = (case v of None \<Rightarrow> Some None | Some x \<Rightarrow> map_option Some (p (Some x)))"

definition issue_at :: "string \<Rightarrow> 'a option \<Rightarrow> issue list" where
  "issue_at k r = (case r of None \<Rightarrow> [[k]] | Some _ \<Rightarrow> [])"

record item_input =
  in_name :: string
  in_sku :: string
  in_quantity :: int
  in_category :: "string field"
  in_location :: "string field"
  in_minStock :: int
  in_notes :: "string field"
  in_status :: status

text \<open>\<open>itemSchema.safeParse(body)\<close>: \<open>Inl\<close> carries the issues, \<open>Inr\<close> the parsed data.\<close>

definition itemSchema :: "(json \<Rightarrow> jsnum) \<Rightarrow> json \<Rightarrow> issue list + item_input" where
  "itemSchema other b =
     (case b of
        JObj kvs \<Rightarrow>
          (let name = z_string 2 120 (get_prop kvs ''name'');
               sku = z_string 2 80 (get_prop kvs ''sku'');
               quantity = z_coerce_int_min0 other (get_prop kvs ''quantity'');
               category = z_string_opt_null 80 (get_prop kvs ''category'');
               location = z_string_opt_null 80 (get_prop kvs ''location'');
               minStock = z_coerce_int_min0_default other (get_prop kvs ''minStock'');
               notes = z_string_opt_null 240 (get_prop kvs ''notes'');
               status = z_status_default (get_prop kvs ''status'')
           in case (name, sku, quantity, category, location, minStock, notes, status) of
                (Some n, Some s, Some q, Some c, Some l, Some m, Some t, Some a) \<Rightarrow>
                  Inr \<lparr>in_name = n, in_sku = s, in_quantity = q, in_category = c,
                       in_location = l, in_minStock = m, in_notes = t, in_status = a\<rparr>
              | _ \<Rightarrow>
                  Inl (issue_at ''name'' name @ issue_at ''sku'' sku
                       @ issue_at ''quantity'' quantity @ issue_at ''category'' category
                       @ issue_at ''location'' location @ issue_at ''minStock'' minStock
                       @ issue_at ''notes'' notes @ issue_at ''status'' status))
      | _ \<Rightarrow> Inl [[]])"

record item_patch =
  p_name :: "string option"
  p_sku :: "string option"
  p_quantity :: "int option"
  p_category :: "string field"
  p_location :: "string field"
  p_minStock :: int
  p_notes :: "string field"
  p_status :: status

text \<open>
  \<open>itemUpdateSchema = itemSchema.partial()\<close>. In zod 4 (the version that has \<open>z.email()\<close>)
  an optional wrapper hands \<open>undefined\<close> on to an inner \<open>.default(...)\<close>, so \<open>minStock\<close>
  and \<open>status\<close> are present in every parsed update.
\<close>

definition itemUpdateSchema :: "(json \<Rightarrow> jsnum) \<Rightarrow> json \<Rightarrow> issue list + item_patch" where
  "itemUpdateSchema other b =
     (case b of
        JObj kvs \<Rightarrow>
          (let name = z_optional (z_string 2 120) (get_prop kvs ''name'');
               sku = z_optional (z_string 2 80) (get_prop kvs ''sku'');
               quantity = z_optional (z_coerce_int_min0 other) (get_prop kvs ''quantity'');
               category = z_string_opt_null 80 (get_prop kvs ''category'');
               location = z_string_opt_null 80 (get_prop kvs ''location'');
               minStock = z_coerce_int_min0_default other (get_prop kvs ''minStock'');
               notes = z_string_opt_null 240 (get_prop kvs ''notes'');
               status = z_status_default (get_prop kvs ''status'')
           in case (name, sku, quantity, category, location, minStock, notes, status) of
                (Some n, Some s, Some q, Some c, Some l, Some m, Some t, Some a) \<Rightarrow>
                  Inr \<lparr>p_name = n, p_sku = s, p_quantity = q, p_category = c,
                       p_location = l, p_minStock = m, p_notes = t, p_status = a\<rparr>
              | _ \<Rightarrow>
                  Inl (issue_at ''name'' name @ issue_at ''sku'' sku
                       @ issue_at ''quantity'' quantity @ issue_at ''category'' category
                       @ issue_at ''location'' location @ issue_at ''minStock'' minStock
                       @ issue_at ''notes'' notes @ issue_at ''status'' status))
      | _ \<Rightarrow> Inl [[]])"

record credentials =
  cr_email :: string
  cr_password :: string

text \<open>
  \<open>loginSchema\<close>. \<open>is_email\<close> stands for the pattern \<open>z.email()\<close> matches.
\<close>

definition z_email :: "(string \<Rightarrow> bool) \<Rightarrow> json option \<Rightarrow> string option" where
  "z_email is_email v =
     (case v of Some (JStr s) \<Rightarrow> if is_email s then Some s else None | _ \<Rightarrow> None)"

definition z_string_min :: "nat \<Rightarrow> json option \<Rightarrow> string option" where
  "z_string_min lo v =
     (case v of Some (JStr s) \<Rightarrow> if lo \<le> length s then Some s else None | _ \<Rightarrow> None)"

definition loginSchema :: "(string \<Rightarrow> bool) \<Rightarrow> json \<Rightarrow> issue list + credentials" where
  "loginSchema is_email b =
     (case b of
        JObj kvs \<Rightarrow>
          (let email = z_email is_email (get_prop kvs ''email'');
               password = z_string_min 6 (get_prop kvs ''password'')
           in case (email, password) of
                (Some em, Some pw) \<Rightarrow> Inr \<lparr>cr_email = em, cr_password = pw\<rparr>
              | _ \<Rightarrow> Inl (issue_at ''email'' email @ issue_at ''password'' password))
      | _ \<Rightarrow> Inl [[]])"

record registration =
  rg_email :: string
  rg_password :: string
  rg_name :: string

definition registerSchema :: "(string \<Rightarrow> bool) \<Rightarrow> json \<Rightarrow> issue list + registration" where
  "registerSchema is_email b =
     (case b of
        JObj kvs \<Rightarrow>
          (let email = z_email is_email (get_prop kvs ''email'');
               password = z_string_min 6 (get_prop kvs ''password'');
               name = z_string 2 80 (get_prop kvs ''name'')
           in case (email, password, name) of
                (Some em, Some pw, Some n) \<Rightarrow>
                  Inr \<lparr>rg_email = em, rg_password = pw, rg_name = n\<rparr>
              | _ \<Rightarrow>
                  Inl (issue_at ''email'' email @ issue_at ''password'' password
                       @ issue_at ''name'' name))
      | _ \<Rightarrow> Inl [[]])"

section \<open>The store behind the Prisma client\<close>

text \<open>
  Modelled from the spec: the Prisma schema is not among the sources. Its tables, the
  role enumeration with default \<open>MEMBER\<close>, the nullable item columns and the unique
  constraints on \<open>email\<close> and on \<open>(ownerId, sku)\<close> follow the data model of the
  specification; prisma/seed.js addresses items through the compound key \<open>ownerId_sku\<close>.
  The width of the integer columns is not known, and none is modelled.
\<close>

datatype role = ADMIN | MEMBER

record user =
  u_id :: string
  u_email :: string
  u_name :: "string option"
  u_passwordHash :: string
  u_role :: role

record item =
  i_id :: string
  i_ownerId :: string
  i_sku :: string
  i_name :: string
  i_quantity :: int
  i_minStock :: int
  i_category :: "string option"
  i_location :: "string option"
  i_notes :: "string option"
  i_status :: status
  i_createdAt :: nat
  i_updatedAt :: nat

record store =
  users :: "user list"
  items :: "item list"

datatype prisma_error = UniqueConstraintFailed | RecordNotFound

text \<open>\<open>prisma.user.findUnique({ where: { id } })\<close> and \<open>({ where: { email } })\<close>\<close>

definition user_findUnique_id :: "store \<Rightarrow> string \<Rightarrow> user option" where
  "user_findUnique_id st uid = find (\<lambda>u. u_id u = uid) (users st)"

definition user_findUnique_email :: "store \<Rightarrow> string \<Rightarrow> user option" where
  "user_findUnique_email st e = find (\<lambda>u. u_email u = e) (users st)"

text \<open>
  Modelled from the spec: the schema's default role \<open>MEMBER\<close> and its unique \<open>id\<close> and
  \<open>email\<close>, whose violation the client throws. The call is
  \<open>prisma.user.create({ data: { email, name, passwordHash } })\<close>; \<open>new_id\<close> is the
  identifier the client generates for the row.
\<close>

definition user_create :: "string \<Rightarrow> store \<Rightarrow> string \<Rightarrow> string \<Rightarrow> string
    \<Rightarrow> prisma_error + (user \<times> store)" where
  "user_create new_id st e n h =
     (if list_ex (\<lambda>u. u_id u = new_id \<or> u_email u = e) (users st)
      then Inl UniqueConstraintFailed
      else (let u = \<lparr>u_id = new_id, u_email = e, u_name = Some n, u_passwordHash = h,
                      u_role = MEMBER\<rparr>
            in Inr (u, st\<lparr>users := users st @ [u]\<rparr>)))"

definition item_findUnique :: "store \<Rightarrow> string \<Rightarrow> item option" where
  "item_findUnique st iid = find (\<lambda>i. i_id i = iid) (items st)"

text \<open>
  \<open>prisma.item.findMany({ orderBy: { updatedAt: "desc" } })\<close>. Rows with equal
  \<open>updatedAt\<close> keep their stored order here; the database promises no order among them.
\<close>

definition item_findMany_updatedAt_desc :: "store \<Rightarrow> item list" where
  "item_findMany_updatedAt_desc st = rev (sort_key i_updatedAt (rev (items st)))"

text \<open>A column written from an optional, nullable input field.\<close>

definition column_of :: "'a field \<Rightarrow> 'a option" where
  "column_of f = (case f of Val x \<Rightarrow> Some x | _ \<Rightarrow> None)"

definition column_update :: "'a field \<Rightarrow> 'a option \<Rightarrow> 'a option" where
  "column_update f old = (case f of Undefined \<Rightarrow> old | Null \<Rightarrow> None | Val x \<Rightarrow> Some x)"

text \<open>
  Modelled from the spec: the schema's unique constraint on \<open>(ownerId, sku)\<close>; a write
  that would break it is rejected and the client throws.
\<close>

definition owner_sku_taken :: "store \<Rightarrow> string \<Rightarrow> string \<Rightarrow> bool" where
  "owner_sku_taken st owner sku = list_ex (\<lambda>i. i_ownerId i = owner \<and> i_sku i = sku) (items st)"

text \<open>
  \<open>prisma.item.create({ data: { ...parsed.data, ownerId } })\<close> at time \<open>t\<close>; an
  \<open>undefined\<close> or \<open>null\<close> field leaves its column empty.
\<close>

definition item_create :: "string \<Rightarrow> nat \<Rightarrow> store \<Rightarrow> item_input \<Rightarrow> string
    \<Rightarrow> prisma_error + (item \<times> store)" where
  "item_create new_id t st d owner =
     (if list_ex (\<lambda>i. i_id i = new_id) (items st) \<or> owner_sku_taken st owner (in_sku d)
      then Inl UniqueConstraintFailed
      else (let it = \<lparr>i_id = new_id, i_ownerId = owner, i_sku = in_sku d, i_name = in_name d,
                       i_quantity = in_quantity d, i_minStock = in_minStock d,
                       i_category = column_of (in_category d),
                       i_location = column_of (in_location d),
                       i_notes = column_of (in_notes d), i_status = in_status d,
                       i_createdAt = t, i_updatedAt = t\<rparr>
            in Inr (it, st\<lparr>items := items st @ [it]\<rparr>)))"

text \<open>
  The row after \<open>data\<close> is written to it: an \<open>undefined\<close> field keeps the column,
  \<open>null\<close> clears it, and the modification time is set.
\<close>

definition apply_patch :: "nat \<Rightarrow> item_patch \<Rightarrow> item \<Rightarrow> item" where
  "apply_patch t p it =
     it\<lparr>i_name := (case p_name p of None \<Rightarrow> i_name it | Some x \<Rightarrow> x),
        i_sku := (case p_sku p of None \<Rightarrow> i_sku it | Some x \<Rightarrow> x),
        i_quantity := (case p_quantity p of None \<Rightarrow> i_quantity it | Some x \<Rightarrow> x),
        i_category := column_update (p_category p) (i_category it),
        i_location := column_update (p_location p) (i_location it),
        i_minStock := p_minStock p,
        i_notes := column_update (p_notes p) (i_notes it),
        i_status := p_status p,
        i_updatedAt := t\<rparr>"

text \<open>\<open>prisma.item.update({ where: { id }, data })\<close> at time \<open>t\<close>.\<close>

definition item_update :: "nat \<Rightarrow> store \<Rightarrow> string \<Rightarrow> item_patch
    \<Rightarrow> prisma_error + (item \<times> store)" where
  "item_update t st iid p =
     (case item_findUnique st iid of
        None \<Rightarrow> Inl RecordNotFound
      | Some old \<Rightarrow>
          (let it = apply_patch t p old
           in if owner_sku_taken (st\<lparr>items := filter (\<lambda>i. i_id i \<noteq> iid) (items st)\<rparr>)
                   (i_ownerId it) (i_sku it)
              then Inl UniqueConstraintFailed
              else Inr (it, st\<lparr>items := map (\<lambda>i. if i_id i = iid then it else i) (items st)\<rparr>)))"

text \<open>\<open>prisma.item.delete({ where: { id } })\<close>\<close>

definition item_delete :: "store \<Rightarrow> string \<Rightarrow> prisma_error + store" where
  "item_delete st iid =
     (case item_findUnique st iid of
        None \<Rightarrow> Inl RecordNotFound
      | Some _ \<Rightarrow> Inr (st\<lparr>items := filter (\<lambda>i. i_id i \<noteq> iid) (items st)\<rparr>))"

section \<open>Sessions (src/lib/auth.ts)\<close>

record session_payload =
  sp_userId :: string
  sp_email :: string
  sp_role :: string

text \<open>
  The content of a compact JWS as jose reads it: the claims, and the key its HS256
  signature was made with (the signature is taken to be unforgeable).
\<close>

record jws =
  j_payload :: session_payload
  j_iat :: nat
  j_exp :: "nat option"
  j_key :: string

text \<open>
  What a request handler does not decide itself: the libraries' pure functions, the
  process configuration, the clock (in seconds) and the identifier generated for a new row.
\<close>

record env =
  jws_decode :: "string \<Rightarrow> jws option"
  jws_encode :: "jws \<Rightarrow> string"
  secret :: string
  now :: nat
  production :: bool
  bcrypt_hash :: "string \<Rightarrow> nat \<Rightarrow> string"
  bcrypt_compare :: "string \<Rightarrow> string \<Rightarrow> bool"
  is_email :: "string \<Rightarrow> bool"
  Number_other :: "json \<Rightarrow> jsnum"
  new_id :: string

definition SESSION_COOKIE :: string where
  "SESSION_COOKIE = ''sp_session''"

definition seven_days :: nat where
  "seven_days = 60 * 60 * 24 * 7"

text \<open>\<open>signSession\<close>: HS256, issued now, expiring in \<open>"7d"\<close>.\<close>

definition signSession :: "env \<Rightarrow> session_payload \<Rightarrow> string" where
  "signSession e p =
     jws_encode e \<lparr>j_payload = p, j_iat = now e, j_exp = Some (now e + seven_days),
                   j_key = secret e\<rparr>"

datatype jose_error = JWSInvalid | JWSSignatureVerificationFailed | JWTExpired

text \<open>
  \<open>jwtVerify(token, secret)\<close> of jose: it throws on a token that does not parse, on a
  signature made with another key, and on an \<open>exp\<close> claim that is not in the future.
\<close>

definition jwtVerify :: "env \<Rightarrow> string \<Rightarrow> jose_error + session_payload" where
  "jwtVerify e token =
     (case jws_decode e token of
        None \<Rightarrow> Inl JWSInvalid
      | Some j \<Rightarrow>
          if j_key j \<noteq> secret e then Inl JWSSignatureVerificationFailed
          else (case j_exp j of
                  Some t \<Rightarrow> if t \<le> now e then Inl JWTExpired else Inr (j_payload j)
                | None \<Rightarrow> Inr (j_payload j)))"

text \<open>\<open>verifySession(token)\<close>: \<open>None\<close> is an absent cookie, \<open>!token\<close> also holds of \<open>""\<close>.\<close>

definition verifySession :: "env \<Rightarrow> string option \<Rightarrow> session_payload option" where
  "verifySession e token =
     (case token of
        None \<Rightarrow> None
      | Some t \<Rightarrow>
          if t = [] then None
          else (case jwtVerify e t of Inl _ \<Rightarrow> None | Inr p \<Rightarrow> Some p))"

record public_user =
  pu_id :: string
  pu_email :: string
  pu_name :: "string option"
  pu_role :: role

text \<open>\<open>select: { id: true, email: true, name: true, role: true }\<close>\<close>

definition select_public :: "user \<Rightarrow> public_user" where
  "select_public u = \<lparr>pu_id = u_id u, pu_email = u_email u, pu_name = u_name u,
                       pu_role = u_role u\<rparr>"

text \<open>
  \<open>requireUser\<close>. The argument is what \<open>getSessionFromRequest\<close> reads: the value of the
  \<open>sp_session\<close> cookie of the request, \<open>None\<close> when there is none.
\<close>

definition requireUser :: "env \<Rightarrow> store \<Rightarrow> string option \<Rightarrow> public_user option" where
  "requireUser e st cookie =
     (case verifySession e cookie of
        None \<Rightarrow> None
      | Some session \<Rightarrow>
          if sp_userId session = [] then None
          else map_option select_public (user_findUnique_id st (sp_userId session)))"

record cookie =
  c_name :: string
  c_value :: string
  c_httpOnly :: bool
  c_sameSite :: string
  c_secure :: bool
  c_path :: string
  c_maxAge :: nat

definition buildSessionCookie :: "env \<Rightarrow> string \<Rightarrow> cookie" where
  "buildSessionCookie e token =
     \<lparr>c_name = SESSION_COOKIE, c_value = token, c_httpOnly = True, c_sameSite = ''lax'',
      c_secure = production e, c_path = ''/'', c_maxAge = 60 * 60 * 24 * 7\<rparr>"

definition clearSessionCookie :: "env \<Rightarrow> cookie" where
  "clearSessionCookie e =
     \<lparr>c_name = SESSION_COOKIE, c_value = [], c_httpOnly = True, c_sameSite = ''lax'',
      c_secure = production e, c_path = ''/'', c_maxAge = 0\<rparr>"

section \<open>Requests, responses and the route handlers\<close>

text \<open>The body of a request: \<open>req.json()\<close> throws a SyntaxError on text that is not JSON.\<close>

datatype raw_body = NotJson | Json json

record request =
  rq_cookie :: "string option"
  rq_body :: raw_body

text \<open>The values handed to \<open>NextResponse.json\<close>, by shape.\<close>

datatype body =
    BError string
  | BIssues string "issue list"
  | BUser json
  | BItems "item list"
  | BItem item
  | BSuccess

record response =
  r_status :: nat
  r_body :: body
  r_cookie :: "cookie option"

text \<open>A handler returns a response, or lets an exception escape to the framework.\<close>

datatype exn = SyntaxError | PrismaError prisma_error

datatype outcome = Response response | Threw exn

definition respond :: "nat \<Rightarrow> body \<Rightarrow> outcome" where
  "respond s b = Response \<lparr>r_status = s, r_body = b, r_cookie = None\<rparr>"

definition role_str :: "role \<Rightarrow> string" where
  "role_str r = (case r of ADMIN \<Rightarrow> ''ADMIN'' | MEMBER \<Rightarrow> ''MEMBER'')"

text \<open>The object \<open>{ id, email, name, role }\<close> as it is serialised.\<close>

definition public_user_json :: "public_user \<Rightarrow> json" where
  "public_user_json u =
     JObj [(''id'', JStr (pu_id u)), (''email'', JStr (pu_email u)),
           (''name'', (case pu_name u of None \<Rightarrow> JNull | Some n \<Rightarrow> JStr n)),
           (''role'', JStr (role_str (pu_role u)))]"

text \<open>The keys of a serialised object, in order.\<close>

definition object_keys :: "json \<Rightarrow> string list" where
  "object_keys j = (case j of JObj kvs \<Rightarrow> map fst kvs | _ \<Rightarrow> [])"

subsection \<open>POST /api/auth/login\<close>

definition POST_login :: "env \<Rightarrow> store \<Rightarrow> request \<Rightarrow> outcome" where
  "POST_login e st rq =
     (case rq_body rq of
        NotJson \<Rightarrow> respond 500 (BError ''Internal server error'')
      | Json b \<Rightarrow>
          (case loginSchema (is_email e) b of
             Inl _ \<Rightarrow> respond 400 (BError ''Invalid credentials'')
           | Inr c \<Rightarrow>
               (case user_findUnique_email st (cr_email c) of
                  None \<Rightarrow> respond 401 (BError ''Invalid email or password'')
                | Some u \<Rightarrow>
                    if \<not> bcrypt_compare e (cr_password c) (u_passwordHash u)
                    then respond 401 (BError ''Invalid email or password'')
                    else Response
                      \<lparr>r_status = 200,
                       r_body = BUser (public_user_json (select_public u)),
                       r_cookie = Some (buildSessionCookie e
                         (signSession e \<lparr>sp_userId = u_id u, sp_email = u_email u,
                                          sp_role = role_str (u_role u)\<rparr>))\<rparr>)))"

subsection \<open>POST /api/auth/register (src/unnamed/part_000)\<close>

definition POST_register :: "env \<Rightarrow> store \<Rightarrow> request \<Rightarrow> outcome \<times> store" where
  "POST_register e st rq =
     (case rq_body rq of
        NotJson \<Rightarrow> (respond 500 (BError ''Internal server error''), st)
      | Json b \<Rightarrow>
          (case registerSchema (is_email e) b of
             Inl issues \<Rightarrow> (respond 400 (BIssues ''Invalid data'' issues), st)
           | Inr r \<Rightarrow>
               (case user_findUnique_email st (rg_email r) of
                  Some _ \<Rightarrow> (respond 409 (BError ''Email already registered''), st)
                | None \<Rightarrow>
                    (case user_create (new_id e) st (rg_email r) (rg_name r)
                            (bcrypt_hash e (rg_password r) 10) of
                       Inl _ \<Rightarrow> (respond 500 (BError ''Internal server error''), st)
                     | Inr (u, st') \<Rightarrow>
                         (Response
                            \<lparr>r_status = 201,
                             r_body = BUser (public_user_json (select_public u)),
                             r_cookie = Some (buildSessionCookie e
                               (signSession e \<lparr>sp_userId = u_id u, sp_email = u_email u,
                                                sp_role = role_str (u_role u)\<rparr>))\<rparr>,
                          st')))))"

subsection \<open>GET /api/auth/me (src/unnamed/part_001), POST /api/auth/logout (part_002)\<close>

definition GET_me :: "env \<Rightarrow> store \<Rightarrow> request \<Rightarrow> outcome" where
  "GET_me e st rq =
     (case requireUser e st (rq_cookie rq) of
        None \<Rightarrow> respond 200 (BUser JNull)
      | Some u \<Rightarrow> respond 200 (BUser (public_user_json u)))"

definition POST_logout :: "env \<Rightarrow> outcome" where
  "POST_logout e =
     Response \<lparr>r_status = 200, r_body = BSuccess, r_cookie = Some (clearSessionCookie e)\<rparr>"

subsection \<open>GET and POST /api/items\<close>

definition GET_items :: "env \<Rightarrow> store \<Rightarrow> request \<Rightarrow> outcome" where
  "GET_items e st rq =
     (case requireUser e st (rq_cookie rq) of
        None \<Rightarrow> respond 401 (BError ''Unauthorized'')
      | Some _ \<Rightarrow> respond 200 (BItems (item_findMany_updatedAt_desc st)))"

definition POST_items :: "env \<Rightarrow> store \<Rightarrow> request \<Rightarrow> outcome \<times> store" where
  "POST_items e st rq =
     (case requireUser e st (rq_cookie rq) of
        None \<Rightarrow> (respond 401 (BError ''Unauthorized''), st)
      | Some u \<Rightarrow>
          if pu_role u \<noteq> ADMIN then (respond 403 (BError ''Admin access required''), st)
          else (case rq_body rq of
                  NotJson \<Rightarrow> (Threw SyntaxError, st)
                | Json b \<Rightarrow>
                    (case itemSchema (Number_other e) b of
                       Inl issues \<Rightarrow> (respond 400 (BIssues ''Invalid payload'' issues), st)
                     | Inr d \<Rightarrow>
                         (case item_create (new_id e) (now e) st d (pu_id u) of
                            Inl _ \<Rightarrow> (respond 500 (BError ''Could not create item''), st)
                          | Inr (it, st') \<Rightarrow> (respond 201 (BItem it), st')))))"

subsection \<open>PATCH and DELETE /api/items/[id]\<close>

definition PATCH_item :: "env \<Rightarrow> store \<Rightarrow> request \<Rightarrow> string \<Rightarrow> outcome \<times> store" where
  "PATCH_item e st rq iid =
     (case requireUser e st (rq_cookie rq) of
        None \<Rightarrow> (respond 401 (BError ''Unauthorized''), st)
      | Some u \<Rightarrow>
          (case rq_body rq of
             NotJson \<Rightarrow> (Threw SyntaxError, st)
           | Json b \<Rightarrow>
               (case itemUpdateSchema (Number_other e) b of
                  Inl issues \<Rightarrow> (respond 400 (BIssues ''Invalid payload'' issues), st)
                | Inr p \<Rightarrow>
                    (case item_findUnique st iid of
                       None \<Rightarrow> (respond 404 (BError ''Not found''), st)
                     | Some existing \<Rightarrow>
                         (case item_update (now e) st iid p of
                            Inl err \<Rightarrow> (Threw (PrismaError err), st)
                          | Inr (it, st') \<Rightarrow> (respond 200 (BItem it), st'))))))"

definition DELETE_item :: "env \<Rightarrow> store \<Rightarrow> request \<Rightarrow> string \<Rightarrow> outcome \<times> store" where
  "DELETE_item e st rq iid =
     (case requireUser e st (rq_cookie rq) of
        None \<Rightarrow> (respond 401 (BError ''Unauthorized''), st)
      | Some u \<Rightarrow>
          if pu_role u \<noteq> ADMIN then (respond 403 (BError ''Admin access required''), st)
          else if iid = [] then (respond 400 (BError ''Item id missing in route''), st)
          else (case item_findUnique st iid of
                  None \<Rightarrow> (respond 404 (BError ''Not found''), st)
                | Some existing \<Rightarrow>
                    if i_ownerId existing \<noteq> pu_id u
                    then (respond 404 (BError ''Not found''), st)
                    else (case item_delete st iid of
                            Inl err \<Rightarrow> (Threw (PrismaError err), st)
                          | Inr st' \<Rightarrow> (respond 200 BSuccess, st'))))"

section \<open>A concrete deployment, for evaluating the handlers\<close>

text \<open>The status code of a response; none when an exception escaped the handler.\<close>

definition status_of :: "outcome \<Rightarrow> nat option" where
  "status_of out = (case out of Response r \<Rightarrow> Some (r_status r) | Threw _ \<Rightarrow> None)"

text \<open>
  A toy codec and toy hashing: seven token strings decode to a JWS, a password's hash is
  the password behind a prefix. The store holds the seeded admin \<open>u1\<close>, a member \<open>u2\<close>
  and a second admin \<open>u3\<close>, with three items; the clock reads 700000.
\<close>

definition demo_jws :: "string \<Rightarrow> string \<Rightarrow> nat \<Rightarrow> string \<Rightarrow> jws" where
  "demo_jws uid r issued k =
     \<lparr>j_payload = \<lparr>sp_userId = uid, sp_email = uid @ ''@stockpilot.dev'', sp_role = r\<rparr>,
      j_iat = issued, j_exp = Some (issued + seven_days), j_key = k\<rparr>"

definition demo_decode :: "string \<Rightarrow> jws option" where
  "demo_decode t =
     (if t = ''tok-admin'' then Some (demo_jws ''u1'' ''ADMIN'' 650000 ''dev-secret-change-me'')
      else if t = ''tok-member'' then Some (demo_jws ''u2'' ''MEMBER'' 650000 ''dev-secret-change-me'')
      else if t = ''tok-admin2'' then Some (demo_jws ''u3'' ''ADMIN'' 650000 ''dev-secret-change-me'')
      else if t = ''tok-promoted'' then Some (demo_jws ''u2'' ''ADMIN'' 650000 ''dev-secret-change-me'')
      else if t = ''tok-old'' then Some (demo_jws ''u1'' ''ADMIN'' 0 ''dev-secret-change-me'')
      else if t = ''tok-forged'' then Some (demo_jws ''u1'' ''ADMIN'' 650000 ''guess'')
      else if t = ''tok-ghost'' then Some (demo_jws ''u9'' ''ADMIN'' 650000 ''dev-secret-change-me'')
      else None)"

definition demo_env :: env where
  "demo_env =
     \<lparr>jws_decode = demo_decode,
      jws_encode = (\<lambda>j. ''tok-'' @ sp_userId (j_payload j)),
      secret = ''dev-secret-change-me'',
      now = 700000,
      production = False,
      bcrypt_hash = (\<lambda>p cost. ''$2b$'' @ p),
      bcrypt_compare = (\<lambda>p h. h = ''$2b$'' @ p),
      is_email = (\<lambda>s. CHR ''@'' \<in> set s),
      Number_other = (\<lambda>_. NaN),
      new_id = ''c-new''\<rparr>"

definition demo_item :: "string \<Rightarrow> string \<Rightarrow> string \<Rightarrow> int \<Rightarrow> nat \<Rightarrow> item" where
  "demo_item iid owner sku q t =
     \<lparr>i_id = iid, i_ownerId = owner, i_sku = sku, i_name = ''Item '' @ sku, i_quantity = q,
      i_minStock = 5, i_category = Some ''Hardware'', i_location = None, i_notes = None,
      i_status = ACTIVE, i_createdAt = 10, i_updatedAt = t\<rparr>"

definition demo_store :: store where
  "demo_store =
     \<lparr>users =
        [\<lparr>u_id = ''u1'', u_email = ''demo@stockpilot.dev'', u_name = Some ''Demo Manager'',
          u_passwordHash = ''$2b$demo1234'', u_role = ADMIN\<rparr>,
         \<lparr>u_id = ''u2'', u_email = ''a@x.com'', u_name = Some ''Alex'',
          u_passwordHash = ''$2b$secret1'', u_role = MEMBER\<rparr>,
         \<lparr>u_id = ''u3'', u_email = ''b@x.com'', u_name = None,
          u_passwordHash = ''$2b$secret2'', u_role = ADMIN\<rparr>],
      items =
        [demo_item ''i1'' ''u1'' ''LBL-THERM-100'' 120 300,
         demo_item ''i2'' ''u1'' ''SCN-USB-200'' 22 500,
         demo_item ''i3'' ''u3'' ''PRT-THERM-500'' 8 400]\<rparr>"

definition demo_request :: "string \<Rightarrow> (string \<times> json) list \<Rightarrow> request" where
  "demo_request tok kvs = \<lparr>rq_cookie = Some tok, rq_body = Json (JObj kvs)\<rparr>"

text \<open>An environment whose decoder takes every string, the empty one too, for a valid token.\<close>

definition gullible_env :: env where
  "gullible_env =
     demo_env\<lparr>jws_decode := (\<lambda>_. Some (demo_jws ''u1'' ''ADMIN'' 650000 ''dev-secret-change-me''))\<rparr>"

section \<open>Evaluating the concrete deployment\<close>

lemmas demo_defs = demo_env_def demo_store_def demo_request_def demo_decode_def demo_jws_def
  demo_item_def seven_days_def

lemmas session_defs = requireUser_def verifySession_def jwtVerify_def user_findUnique_id_def
  select_public_def

lemmas field_defs = get_prop_def z_string_def z_coerce_int_min0_def z_int_min0_def js_Number_def
  z_string_opt_null_def z_coerce_int_min0_default_def z_status_default_def z_optional_def
  issue_at_def MAX_SAFE_INTEGER_def is_digit_def digit_val_def digits_number_def
  signed_digits_def

lemma demo_admin:
  "requireUser demo_env demo_store (Some ''tok-admin'') =
     Some \<lparr>pu_id = ''u1'', pu_email = ''demo@stockpilot.dev'', pu_name = Some ''Demo Manager'',
           pu_role = ADMIN\<rparr>"
  by (simp add: session_defs demo_defs)

lemma demo_member:
  "requireUser demo_env demo_store (Some ''tok-member'') =
     Some \<lparr>pu_id = ''u2'', pu_email = ''a@x.com'', pu_name = Some ''Alex'', pu_role = MEMBER\<rparr>"
  by (simp add: session_defs demo_defs)


lemma demo_no_cookie: "requireUser demo_env demo_store None = None"
  by (simp add: session_defs)

lemma demo_items:
  "items demo_store =
     [demo_item ''i1'' ''u1'' ''LBL-THERM-100'' 120 300,
      demo_item ''i2'' ''u1'' ''SCN-USB-200'' 22 500,
      demo_item ''i3'' ''u3'' ''PRT-THERM-500'' 8 400]"
  by (simp add: demo_store_def)

lemma demo_find_i2:
  "item_findUnique demo_store ''i2'' = Some (demo_item ''i2'' ''u1'' ''SCN-USB-200'' 22 500)"
  by (simp add: item_findUnique_def demo_items) (simp add: demo_item_def)

lemma demo_find_i3:
  "item_findUnique demo_store ''i3'' = Some (demo_item ''i3'' ''u3'' ''PRT-THERM-500'' 8 400)"
  by (simp add: item_findUnique_def demo_items) (simp add: demo_item_def)

lemma demo_find_empty: "item_findUnique demo_store [] = None"
  by (simp add: item_findUnique_def demo_items) (simp add: demo_item_def)

lemma demo_find_missing: "item_findUnique demo_store ''i9'' = None"
  by (simp add: item_findUnique_def demo_items) (simp add: demo_item_def)

lemma demo_taken: "owner_sku_taken demo_store ''u1'' ''LBL-THERM-100''"
  by (simp add: owner_sku_taken_def demo_items) (simp add: demo_item_def)

lemma demo_parse_labels:
  "itemSchema (Number_other demo_env)
     (JObj [(''name'', JStr ''Thermal Label Rolls''), (''sku'', JStr ''LBL-THERM-100''),
            (''quantity'', JNum (Whole 120))]) =
   Inr \<lparr>in_name = ''Thermal Label Rolls'', in_sku = ''LBL-THERM-100'', in_quantity = 120,
        in_category = Undefined, in_location = Undefined, in_minStock = 0,
        in_notes = Undefined, in_status = ACTIVE\<rparr>"
  by (simp add: itemSchema_def field_defs)

section \<open>Creating an item whose SKU the creator already has\<close>

lemma item_create_taken:
  "owner_sku_taken st owner (in_sku d) \<Longrightarrow>
     item_create i t st d owner = Inl UniqueConstraintFailed"
  by (simp add: item_create_def)

text \<open>
  What the create handler does with a duplicate: \<open>prisma.item.create\<close> throws, and the
  handler's \<open>catch\<close> answers 500 with the store unchanged.
\<close>

lemma create_conflict_is_caught:
  assumes "requireUser e st (rq_cookie rq) = Some u" and "pu_role u = ADMIN"
    and "rq_body rq = Json b" and "itemSchema (Number_other e) b = Inr d"
    and "owner_sku_taken st (pu_id u) (in_sku d)"
  shows "POST_items e st rq = (respond 500 (BError ''Could not create item''), st)"
  using assms by (simp add: POST_items_def item_create_taken)

text \<open>
  What the register handler does with a duplicate of its unique key: it looks the email
  up first and answers 409.
\<close>

lemma register_existing_email_is_409:
  assumes "rq_body rq = Json b" and "registerSchema (is_email e) b = Inr r"
    and "user_findUnique_email st (rg_email r) = Some u"
  shows "POST_register e st rq = (respond 409 (BError ''Email already registered''), st)"
  using assms by (simp add: POST_register_def)

lemma demo_parse_register_demo:
  "registerSchema (is_email demo_env)
     (JObj [(''email'', JStr ''demo@stockpilot.dev''), (''password'', JStr ''demo1234''),
            (''name'', JStr ''Demo Manager'')]) =
   Inr \<lparr>rg_email = ''demo@stockpilot.dev'', rg_password = ''demo1234'',
        rg_name = ''Demo Manager''\<rparr>"
  by (simp add: registerSchema_def z_email_def z_string_min_def z_string_def get_prop_def
      issue_at_def demo_env_def)

text \<open>
  C1 asks that a create request of an authenticated ADMIN whose (creator id, sku) pair
  already exists fail with Conflict (409) and persist nothing. The handler persists
  nothing but does not answer 409: the demo admin, who owns \<open>LBL-THERM-100\<close>, posts that
  SKU again and is answered 500 ``Could not create item''. Registering the admin's email
  again, the same kind of duplicate, is answered 409.
\<close>

theorem create_existing_sku_is_500_not_409:
  "map_option pu_role (requireUser demo_env demo_store (Some ''tok-admin'')) = Some ADMIN
   \<and> owner_sku_taken demo_store ''u1'' ''LBL-THERM-100''
   \<and> POST_items demo_env demo_store
        (demo_request ''tok-admin''
           [(''name'', JStr ''Thermal Label Rolls''), (''sku'', JStr ''LBL-THERM-100''),
            (''quantity'', JNum (Whole 120))])
       = (respond 500 (BError ''Could not create item''), demo_store)
   \<and> status_of (fst (POST_items demo_env demo_store
        (demo_request ''tok-admin''
           [(''name'', JStr ''Thermal Label Rolls''), (''sku'', JStr ''LBL-THERM-100''),
            (''quantity'', JNum (Whole 120))]))) \<noteq> Some 409
   \<and> POST_register demo_env demo_store
        (demo_request []
           [(''email'', JStr ''demo@stockpilot.dev''), (''password'', JStr ''demo1234''),
            (''name'', JStr ''Demo Manager'')])
       = (respond 409 (BError ''Email already registered''), demo_store)"
proof -
  let ?kvs = "[(''name'', JStr ''Thermal Label Rolls''), (''sku'', JStr ''LBL-THERM-100''),
               (''quantity'', JNum (Whole 120))]"
  let ?reg = "[(''email'', JStr ''demo@stockpilot.dev''), (''password'', JStr ''demo1234''),
               (''name'', JStr ''Demo Manager'')]"
  have role: "map_option pu_role (requireUser demo_env demo_store (Some ''tok-admin''))
      = Some ADMIN"
    by (simp add: demo_admin)
  have post: "POST_items demo_env demo_store (demo_request ''tok-admin'' ?kvs)
      = (respond 500 (BError ''Could not create item''), demo_store)"
    by (simp add: POST_items_def demo_request_def demo_admin demo_parse_labels demo_taken
        item_create_taken)
  have not_409: "status_of (fst (POST_items demo_env demo_store
      (demo_request ''tok-admin'' ?kvs))) \<noteq> Some 409"
    by (simp add: post status_of_def respond_def)
  have reg: "POST_register demo_env demo_store (demo_request [] ?reg)
      = (respond 409 (BError ''Email already registered''), demo_store)"
    by (simp add: POST_register_def demo_request_def demo_parse_register_demo
        user_findUnique_email_def demo_store_def)
  from role demo_taken post not_409 reg show ?thesis by simp
qed

section \<open>Deleting an item\<close>

lemma item_delete_found:
  "item_findUnique st iid = Some it \<Longrightarrow>
     item_delete st iid = Inr (st\<lparr>items := filter (\<lambda>i. i_id i \<noteq> iid) (items st)\<rparr>)"
  by (simp add: item_delete_def)

lemma find_after_filter: "find (\<lambda>i. i_id i = iid) (filter (\<lambda>i. i_id i \<noteq> iid) xs) = None"
  by (simp add: find_None_iff)

text \<open>
  C2. For every delete request of an authenticated ADMIN and every route id the router
  passes (a path segment, so not the empty string): the answer is 404 when no item has
  that id and when the item's ownerId is not the requester's id, and the store is
  unchanged; the answer is never 403; the store changes only when the item exists and is
  owned by the requester, and then exactly that item is removed and the answer is 200.
  (The handler's own guard answers 400 for an empty id.)
\<close>

theorem delete_scoped_to_owner:
  assumes "requireUser e st (rq_cookie rq) = Some u" and "pu_role u = ADMIN"
  shows "(iid = [] \<longrightarrow>
            DELETE_item e st rq iid = (respond 400 (BError ''Item id missing in route''), st))
       \<and> (iid \<noteq> [] \<and> item_findUnique st iid = None \<longrightarrow>
            DELETE_item e st rq iid = (respond 404 (BError ''Not found''), st))
       \<and> (\<forall>it. iid \<noteq> [] \<and> item_findUnique st iid = Some it \<and> i_ownerId it \<noteq> pu_id u \<longrightarrow>
            DELETE_item e st rq iid = (respond 404 (BError ''Not found''), st))
       \<and> (\<forall>it. iid \<noteq> [] \<and> item_findUnique st iid = Some it \<and> i_ownerId it = pu_id u \<longrightarrow>
            DELETE_item e st rq iid =
              (respond 200 BSuccess, st\<lparr>items := filter (\<lambda>i. i_id i \<noteq> iid) (items st)\<rparr>)
            \<and> item_findUnique (snd (DELETE_item e st rq iid)) iid = None)
       \<and> status_of (fst (DELETE_item e st rq iid)) \<noteq> Some 403
       \<and> (snd (DELETE_item e st rq iid) \<noteq> st \<longrightarrow>
            (\<exists>it. item_findUnique st iid = Some it \<and> i_ownerId it = pu_id u))"
proof -
  have empty: "iid = [] \<longrightarrow>
      DELETE_item e st rq iid = (respond 400 (BError ''Item id missing in route''), st)"
    using assms by (simp add: DELETE_item_def)
  have missing: "iid \<noteq> [] \<and> item_findUnique st iid = None \<longrightarrow>
      DELETE_item e st rq iid = (respond 404 (BError ''Not found''), st)"
    using assms by (simp add: DELETE_item_def)
  have foreign: "\<forall>it. iid \<noteq> [] \<and> item_findUnique st iid = Some it \<and> i_ownerId it \<noteq> pu_id u \<longrightarrow>
      DELETE_item e st rq iid = (respond 404 (BError ''Not found''), st)"
    using assms by (simp add: DELETE_item_def)
  have own: "\<forall>it. iid \<noteq> [] \<and> item_findUnique st iid = Some it \<and> i_ownerId it = pu_id u \<longrightarrow>
      DELETE_item e st rq iid =
        (respond 200 BSuccess, st\<lparr>items := filter (\<lambda>i. i_id i \<noteq> iid) (items st)\<rparr>)
      \<and> item_findUnique (snd (DELETE_item e st rq iid)) iid = None"
    using assms
    by (simp add: DELETE_item_def item_delete_found item_findUnique_def find_after_filter)
  have never_403: "status_of (fst (DELETE_item e st rq iid)) \<noteq> Some 403"
  proof (cases "iid = []")
    case True
    with empty show ?thesis by (simp add: status_of_def respond_def)
  next
    case False
    show ?thesis
    proof (cases "item_findUnique st iid")
      case None
      with False missing show ?thesis by (simp add: status_of_def respond_def)
    next
      case (Some it)
      with False foreign own show ?thesis
        by (cases "i_ownerId it = pu_id u") (simp_all add: status_of_def respond_def)
    qed
  qed
  have only_own: "snd (DELETE_item e st rq iid) \<noteq> st \<longrightarrow>
      (\<exists>it. item_findUnique st iid = Some it \<and> i_ownerId it = pu_id u)"
  proof (cases "iid = []")
    case True
    with empty show ?thesis by simp
  next
    case False
    show ?thesis
    proof (cases "item_findUnique st iid")
      case None
      with False missing show ?thesis by simp
    next
      case (Some it)
      with False foreign show ?thesis
        by (cases "i_ownerId it = pu_id u") simp_all
    qed
  qed
  from empty missing foreign own never_403 only_own show ?thesis by blast
qed

theorem delete_scoped_to_owner_witness:
  "DELETE_item demo_env demo_store (demo_request ''tok-admin'' []) ''i9''
     = (respond 404 (BError ''Not found''), demo_store)
   \<and> DELETE_item demo_env demo_store (demo_request ''tok-admin'' []) ''i3''
     = (respond 404 (BError ''Not found''), demo_store)
   \<and> DELETE_item demo_env demo_store (demo_request ''tok-admin'' []) ''i2''
     = (respond 200 BSuccess,
        demo_store\<lparr>items := filter (\<lambda>i. i_id i \<noteq> ''i2'') (items demo_store)\<rparr>)
   \<and> DELETE_item demo_env demo_store (demo_request ''tok-admin'' []) []
     = (respond 400 (BError ''Item id missing in route''), demo_store)"
proof -
  let ?rq = "demo_request ''tok-admin'' []"
  have auth: "requireUser demo_env demo_store (rq_cookie ?rq)
      = Some \<lparr>pu_id = ''u1'', pu_email = ''demo@stockpilot.dev'',
              pu_name = Some ''Demo Manager'', pu_role = ADMIN\<rparr>"
    by (simp add: demo_request_def demo_admin)
  note d = delete_scoped_to_owner [OF auth]
  have a: "DELETE_item demo_env demo_store ?rq ''i9''
      = (respond 404 (BError ''Not found''), demo_store)"
    using d [of "''i9''"] demo_find_missing by simp
  have b: "DELETE_item demo_env demo_store ?rq ''i3''
      = (respond 404 (BError ''Not found''), demo_store)"
    using d [of "''i3''"] demo_find_i3 by (simp add: demo_item_def)
  have c: "DELETE_item demo_env demo_store ?rq ''i2''
      = (respond 200 BSuccess,
         demo_store\<lparr>items := filter (\<lambda>i. i_id i \<noteq> ''i2'') (items demo_store)\<rparr>)"
    using d [of "''i2''"] demo_find_i2 by (simp add: demo_item_def)
  have z: "DELETE_item demo_env demo_store ?rq []
      = (respond 400 (BError ''Item id missing in route''), demo_store)"
    using d [of "[]"] by simp
  from a b c z show ?thesis by simp
qed

section \<open>Login failures\<close>

text \<open>
  C3. A login whose email is not registered and a login whose email is registered but
  whose password fails the hash comparison are answered with the same response:
  status 401, body ``Invalid email or password'', no cookie.
\<close>

theorem login_failures_indistinguishable:
  assumes "rq_body rq = Json b" and "loginSchema (is_email e) b = Inr c"
    and "user_findUnique_email st1 (cr_email c) = None"
    and "user_findUnique_email st2 (cr_email c) = Some u"
    and "\<not> bcrypt_compare e (cr_password c) (u_passwordHash u)"
  shows "POST_login e st1 rq = POST_login e st2 rq
       \<and> POST_login e st2 rq =
           Response \<lparr>r_status = 401, r_body = BError ''Invalid email or password'',
                     r_cookie = None\<rparr>"
  using assms by (simp add: POST_login_def respond_def)

lemma demo_parse_login:
  "loginSchema (is_email demo_env)
     (JObj [(''email'', JStr ''a@x.com''), (''password'', JStr ''wrong-pass'')]) =
   Inr \<lparr>cr_email = ''a@x.com'', cr_password = ''wrong-pass''\<rparr>"
  by (simp add: loginSchema_def z_email_def z_string_min_def get_prop_def issue_at_def
      demo_env_def)

theorem login_failures_indistinguishable_witness:
  "POST_login demo_env (demo_store\<lparr>users := []\<rparr>)
     (demo_request [] [(''email'', JStr ''a@x.com''), (''password'', JStr ''wrong-pass'')])
   = POST_login demo_env demo_store
     (demo_request [] [(''email'', JStr ''a@x.com''), (''password'', JStr ''wrong-pass'')])
   \<and> status_of (POST_login demo_env demo_store
     (demo_request [] [(''email'', JStr ''a@x.com''), (''password'', JStr ''wrong-pass'')]))
     = Some 401"
proof -
  let ?kvs = "[(''email'', JStr ''a@x.com''), (''password'', JStr ''wrong-pass'')]"
  let ?alex = "\<lparr>u_id = ''u2'', u_email = ''a@x.com'', u_name = Some ''Alex'',
                 u_passwordHash = ''$2b$secret1'', u_role = MEMBER\<rparr>"
  have body: "rq_body (demo_request [] ?kvs) = Json (JObj ?kvs)"
    by (simp add: demo_request_def)
  have absent: "user_findUnique_email (demo_store\<lparr>users := []\<rparr>)
      (cr_email \<lparr>cr_email = ''a@x.com'', cr_password = ''wrong-pass''\<rparr>) = None"
    by (simp add: user_findUnique_email_def)
  have present: "user_findUnique_email demo_store
      (cr_email \<lparr>cr_email = ''a@x.com'', cr_password = ''wrong-pass''\<rparr>) = Some ?alex"
    by (simp add: user_findUnique_email_def demo_store_def)
  have wrong: "\<not> bcrypt_compare demo_env
      (cr_password \<lparr>cr_email = ''a@x.com'', cr_password = ''wrong-pass''\<rparr>)
      (u_passwordHash ?alex)"
    by (simp add: demo_env_def)
  from login_failures_indistinguishable [OF body demo_parse_login absent present wrong]
  show ?thesis by (simp add: status_of_def)
qed

section \<open>Resolving the current user\<close>

lemma jwtVerify_expired:
  "jws_decode e tok = Some j \<Longrightarrow> j_exp j = Some t \<Longrightarrow> t \<le> now e \<Longrightarrow>
     \<exists>err. jwtVerify e tok = Inl err"
  by (simp add: jwtVerify_def)

lemma find_id_Some: "find (\<lambda>u. u_id u = uid) xs = Some u \<Longrightarrow> u \<in> set xs \<and> u_id u = uid"
  by (auto simp: find_Some_iff)

text \<open>
  C4. \<open>requireUser\<close> returns none when there is no session cookie, when \<open>jwtVerify\<close>
  rejects the token (malformed, signed with another key, or expired), in particular for
  every token whose expiry, seven days after it was issued as \<open>signSession\<close> sets it, has
  passed, and when no user has the id the token carries. When it returns a user, that
  user is the projection of the stored row with the token's user id, so its role and name
  are the stored ones; two valid tokens with the same user id resolve alike, whatever
  email and role they embed.
\<close>

theorem requireUser_resolves_live_user:
  "requireUser e st None = None
   \<and> (\<forall>tok err. jwtVerify e tok = Inl err \<longrightarrow> requireUser e st (Some tok) = None)
   \<and> (\<forall>tok j. jws_decode e tok = Some j \<and> j_exp j = Some (j_iat j + seven_days)
         \<and> j_iat j + seven_days \<le> now e \<longrightarrow> requireUser e st (Some tok) = None)
   \<and> (\<forall>p. \<exists>j. signSession e p = jws_encode e j \<and> j_iat j = now e
         \<and> j_exp j = Some (j_iat j + seven_days))
   \<and> (\<forall>c p. verifySession e c = Some p \<and> user_findUnique_id st (sp_userId p) = None
         \<longrightarrow> requireUser e st c = None)
   \<and> (\<forall>c pu. requireUser e st c = Some pu \<longrightarrow>
         (\<exists>p u. verifySession e c = Some p \<and> u \<in> set (users st) \<and> u_id u = sp_userId p
            \<and> user_findUnique_id st (sp_userId p) = Some u
            \<and> pu_id pu = u_id u \<and> pu_email pu = u_email u
            \<and> pu_name pu = u_name u \<and> pu_role pu = u_role u))
   \<and> (\<forall>c c' p p'. verifySession e c = Some p \<and> verifySession e c' = Some p'
         \<and> sp_userId p = sp_userId p' \<longrightarrow> requireUser e st c = requireUser e st c')"
proof -
  have absent: "requireUser e st None = None"
    by (simp add: requireUser_def verifySession_def)
  have rejected: "\<forall>tok err. jwtVerify e tok = Inl err \<longrightarrow> requireUser e st (Some tok) = None"
    by (auto simp: requireUser_def verifySession_def)
  have expired: "\<forall>tok j. jws_decode e tok = Some j \<and> j_exp j = Some (j_iat j + seven_days)
      \<and> j_iat j + seven_days \<le> now e \<longrightarrow> requireUser e st (Some tok) = None"
  proof (intro allI impI)
    fix tok j
    assume h: "jws_decode e tok = Some j \<and> j_exp j = Some (j_iat j + seven_days)
      \<and> j_iat j + seven_days \<le> now e"
    then obtain err where "jwtVerify e tok = Inl err"
      using jwtVerify_expired by blast
    with rejected show "requireUser e st (Some tok) = None" by blast
  qed
  have issued: "\<forall>p. \<exists>j. signSession e p = jws_encode e j \<and> j_iat j = now e
      \<and> j_exp j = Some (j_iat j + seven_days)"
  proof
    fix p
    let ?j = "\<lparr>j_payload = p, j_iat = now e, j_exp = Some (now e + seven_days),
               j_key = secret e\<rparr>"
    have "signSession e p = jws_encode e ?j \<and> j_iat ?j = now e
        \<and> j_exp ?j = Some (j_iat ?j + seven_days)"
      by (simp add: signSession_def)
    then show "\<exists>j. signSession e p = jws_encode e j \<and> j_iat j = now e
        \<and> j_exp j = Some (j_iat j + seven_days)" ..
  qed
  have gone: "\<forall>c p. verifySession e c = Some p \<and> user_findUnique_id st (sp_userId p) = None
      \<longrightarrow> requireUser e st c = None"
    by (simp add: requireUser_def)
  have live: "\<forall>c pu. requireUser e st c = Some pu \<longrightarrow>
      (\<exists>p u. verifySession e c = Some p \<and> u \<in> set (users st) \<and> u_id u = sp_userId p
         \<and> user_findUnique_id st (sp_userId p) = Some u
         \<and> pu_id pu = u_id u \<and> pu_email pu = u_email u
         \<and> pu_name pu = u_name u \<and> pu_role pu = u_role u)"
  proof (intro allI impI)
    fix c pu
    assume r: "requireUser e st c = Some pu"
    then obtain p where p: "verifySession e c = Some p"
      by (auto simp: requireUser_def split: option.splits)
    with r obtain u where u: "user_findUnique_id st (sp_userId p) = Some u"
      and pu: "pu = select_public u"
      by (auto simp: requireUser_def split: if_splits)
    from u have "u \<in> set (users st) \<and> u_id u = sp_userId p"
      unfolding user_findUnique_id_def by (rule find_id_Some)
    with p u pu show "\<exists>p u. verifySession e c = Some p \<and> u \<in> set (users st)
        \<and> u_id u = sp_userId p \<and> user_findUnique_id st (sp_userId p) = Some u
        \<and> pu_id pu = u_id u \<and> pu_email pu = u_email u
        \<and> pu_name pu = u_name u \<and> pu_role pu = u_role u"
      by (auto simp: select_public_def)
  qed
  have same: "\<forall>c c' p p'. verifySession e c = Some p \<and> verifySession e c' = Some p'
      \<and> sp_userId p = sp_userId p' \<longrightarrow> requireUser e st c = requireUser e st c'"
    by (simp add: requireUser_def)
  from absent rejected expired issued gone live same show ?thesis by blast
qed

theorem requireUser_resolves_live_user_witness:
  "requireUser demo_env demo_store (Some ''tok-old'') = None
   \<and> requireUser demo_env demo_store (Some ''tok-forged'') = None
   \<and> requireUser demo_env demo_store (Some ''tok-ghost'') = None
   \<and> requireUser demo_env demo_store (Some ''tok-promoted'')
       = requireUser demo_env demo_store (Some ''tok-member'')
   \<and> map_option pu_role (requireUser demo_env demo_store (Some ''tok-promoted''))
       = Some MEMBER"
proof -
  note t = requireUser_resolves_live_user [of demo_env demo_store]
  have old: "jws_decode demo_env ''tok-old''
        = Some (demo_jws ''u1'' ''ADMIN'' 0 ''dev-secret-change-me'')
      \<and> j_exp (demo_jws ''u1'' ''ADMIN'' 0 ''dev-secret-change-me'')
        = Some (j_iat (demo_jws ''u1'' ''ADMIN'' 0 ''dev-secret-change-me'') + seven_days)
      \<and> j_iat (demo_jws ''u1'' ''ADMIN'' 0 ''dev-secret-change-me'') + seven_days
        \<le> now demo_env"
    by (simp add: demo_env_def demo_decode_def demo_jws_def seven_days_def)
  with t have a: "requireUser demo_env demo_store (Some ''tok-old'') = None"
    by blast
  have "jwtVerify demo_env ''tok-forged'' = Inl JWSSignatureVerificationFailed"
    by (simp add: jwtVerify_def demo_defs)
  with t have b: "requireUser demo_env demo_store (Some ''tok-forged'') = None"
    by blast
  have ghost: "verifySession demo_env (Some ''tok-ghost'')
        = Some \<lparr>sp_userId = ''u9'', sp_email = ''u9@stockpilot.dev'', sp_role = ''ADMIN''\<rparr>
      \<and> user_findUnique_id demo_store
          (sp_userId \<lparr>sp_userId = ''u9'', sp_email = ''u9@stockpilot.dev'',
                      sp_role = ''ADMIN''\<rparr>) = None"
    by (simp add: verifySession_def jwtVerify_def user_findUnique_id_def demo_defs)
  with t have c: "requireUser demo_env demo_store (Some ''tok-ghost'') = None"
    by blast
  have two: "verifySession demo_env (Some ''tok-promoted'')
        = Some \<lparr>sp_userId = ''u2'', sp_email = ''u2@stockpilot.dev'', sp_role = ''ADMIN''\<rparr>
      \<and> verifySession demo_env (Some ''tok-member'')
        = Some \<lparr>sp_userId = ''u2'', sp_email = ''u2@stockpilot.dev'', sp_role = ''MEMBER''\<rparr>
      \<and> sp_userId \<lparr>sp_userId = ''u2'', sp_email = ''u2@stockpilot.dev'', sp_role = ''ADMIN''\<rparr>
        = sp_userId \<lparr>sp_userId = ''u2'', sp_email = ''u2@stockpilot.dev'',
                     sp_role = ''MEMBER''\<rparr>"
    by (simp add: verifySession_def jwtVerify_def demo_defs)
  with t have d: "requireUser demo_env demo_store (Some ''tok-promoted'')
      = requireUser demo_env demo_store (Some ''tok-member'')"
    by blast
  from a b c d demo_member show ?thesis by simp
qed

section \<open>The cookie that logout sets\<close>

text \<open>
  C9. Logout sets the session cookie to the empty string. \<open>verifySession\<close> answers none
  for the empty string before \<open>jwtVerify\<close> is called: the result is none for every
  environment, also one whose \<open>jwtVerify\<close> would accept the empty string, and so
  \<open>requireUser\<close> is none for a request carrying that cookie.
\<close>

theorem cleared_cookie_is_no_session:
  "c_value (clearSessionCookie e) = []
   \<and> (\<exists>r. POST_logout e' = Response r \<and> map_option c_value (r_cookie r) = Some [])
   \<and> verifySession e (Some (c_value (clearSessionCookie e'))) = None
   \<and> requireUser e st (Some (c_value (clearSessionCookie e'))) = None"
  by (simp add: clearSessionCookie_def POST_logout_def verifySession_def requireUser_def)

theorem cleared_cookie_is_no_session_witness:
  "jwtVerify gullible_env [] =
     Inr \<lparr>sp_userId = ''u1'', sp_email = ''u1@stockpilot.dev'', sp_role = ''ADMIN''\<rparr>
   \<and> verifySession gullible_env (Some (c_value (clearSessionCookie demo_env))) = None
   \<and> requireUser gullible_env demo_store (Some (c_value (clearSessionCookie demo_env))) = None"
proof -
  have "jwtVerify gullible_env [] =
      Inr \<lparr>sp_userId = ''u1'', sp_email = ''u1@stockpilot.dev'', sp_role = ''ADMIN''\<rparr>"
    by (simp add: jwtVerify_def gullible_env_def demo_env_def demo_jws_def seven_days_def)
  with cleared_cookie_is_no_session [of gullible_env demo_env demo_store] show ?thesis
    by blast
qed

section \<open>The role gate of create and delete\<close>

text \<open>
  C6. A create or delete request without a valid session is answered 401; one from an
  authenticated user who is not an ADMIN is answered 403, whatever the body of the
  request (valid, invalid, or not JSON at all) and whatever the route id. The store is
  unchanged in both cases.
\<close>

theorem role_gate_precedes_payload:
  "(requireUser e st (rq_cookie rq) = None \<longrightarrow>
      POST_items e st rq = (respond 401 (BError ''Unauthorized''), st)
      \<and> DELETE_item e st rq iid = (respond 401 (BError ''Unauthorized''), st))
   \<and> (\<forall>u. requireUser e st (rq_cookie rq) = Some u \<and> pu_role u \<noteq> ADMIN \<longrightarrow>
      POST_items e st rq = (respond 403 (BError ''Admin access required''), st)
      \<and> DELETE_item e st rq iid = (respond 403 (BError ''Admin access required''), st))"
  by (simp add: POST_items_def DELETE_item_def)

theorem role_gate_precedes_payload_witness:
  "POST_items demo_env demo_store \<lparr>rq_cookie = Some ''tok-member'', rq_body = NotJson\<rparr>
     = (respond 403 (BError ''Admin access required''), demo_store)
   \<and> POST_items demo_env demo_store
        (demo_request ''tok-member'' [(''quantity'', JStr ''minus one'')])
     = (respond 403 (BError ''Admin access required''), demo_store)
   \<and> DELETE_item demo_env demo_store (demo_request ''tok-member'' []) ''i1''
     = (respond 403 (BError ''Admin access required''), demo_store)
   \<and> POST_items demo_env demo_store \<lparr>rq_cookie = None, rq_body = NotJson\<rparr>
     = (respond 401 (BError ''Unauthorized''), demo_store)
   \<and> DELETE_item demo_env demo_store \<lparr>rq_cookie = None, rq_body = NotJson\<rparr> ''i1''
     = (respond 401 (BError ''Unauthorized''), demo_store)"
proof -
  let ?alex = "\<lparr>pu_id = ''u2'', pu_email = ''a@x.com'', pu_name = Some ''Alex'',
                 pu_role = MEMBER\<rparr>"
  let ?r1 = "\<lparr>rq_cookie = Some ''tok-member'', rq_body = NotJson\<rparr>"
  let ?r2 = "demo_request ''tok-member'' [(''quantity'', JStr ''minus one'')]"
  let ?r3 = "demo_request ''tok-member'' []"
  let ?r4 = "\<lparr>rq_cookie = None, rq_body = NotJson\<rparr>"
  have m1: "requireUser demo_env demo_store (rq_cookie ?r1) = Some ?alex \<and> pu_role ?alex \<noteq> ADMIN"
    by (simp add: demo_member)
  have m2: "requireUser demo_env demo_store (rq_cookie ?r2) = Some ?alex \<and> pu_role ?alex \<noteq> ADMIN"
    by (simp add: demo_member demo_request_def)
  have m3: "requireUser demo_env demo_store (rq_cookie ?r3) = Some ?alex \<and> pu_role ?alex \<noteq> ADMIN"
    by (simp add: demo_member demo_request_def)
  have n4: "requireUser demo_env demo_store (rq_cookie ?r4) = None"
    by (simp add: demo_no_cookie)
  from m1 role_gate_precedes_payload [of demo_env demo_store ?r1 "''i1''"]
  have a: "POST_items demo_env demo_store ?r1
      = (respond 403 (BError ''Admin access required''), demo_store)"
    by blast
  from m2 role_gate_precedes_payload [of demo_env demo_store ?r2 "''i1''"]
  have b: "POST_items demo_env demo_store ?r2
      = (respond 403 (BError ''Admin access required''), demo_store)"
    by blast
  from m3 role_gate_precedes_payload [of demo_env demo_store ?r3 "''i1''"]
  have c: "DELETE_item demo_env demo_store ?r3 ''i1''
      = (respond 403 (BError ''Admin access required''), demo_store)"
    by blast
  from n4 role_gate_precedes_payload [of demo_env demo_store ?r4 "''i1''"]
  have d: "POST_items demo_env demo_store ?r4 = (respond 401 (BError ''Unauthorized''), demo_store)
      \<and> DELETE_item demo_env demo_store ?r4 ''i1''
        = (respond 401 (BError ''Unauthorized''), demo_store)"
    by blast
  from a b c d show ?thesis by simp
qed

section \<open>Listing the inventory\<close>

lemma findMany_mset: "mset (item_findMany_updatedAt_desc st) = mset (items st)"
  by (simp add: item_findMany_updatedAt_desc_def)

lemma findMany_desc:
  "sorted_wrt (\<lambda>a b. i_updatedAt b \<le> i_updatedAt a) (item_findMany_updatedAt_desc st)"
proof -
  have "sorted (map i_updatedAt (sort_key i_updatedAt (rev (items st))))"
    by (rule sorted_sort_key)
  then have "sorted_wrt (\<lambda>a b. i_updatedAt a \<le> i_updatedAt b)
      (sort_key i_updatedAt (rev (items st)))"
    by (simp add: sorted_wrt_map)
  then show ?thesis
    by (simp add: item_findMany_updatedAt_desc_def sorted_wrt_rev)
qed

text \<open>
  C8. The list request of an authenticated user, of any role, is answered 200 with all
  items of the store (the same items with the same multiplicities, whoever owns them),
  ordered by \<open>updatedAt\<close> descending; without a valid session the answer is 401.
\<close>

theorem list_returns_all_items_newest_first:
  "(requireUser e st (rq_cookie rq) = None \<longrightarrow>
      GET_items e st rq = respond 401 (BError ''Unauthorized''))
   \<and> (\<forall>u. requireUser e st (rq_cookie rq) = Some u \<longrightarrow>
      (\<exists>xs. GET_items e st rq = respond 200 (BItems xs)
         \<and> mset xs = mset (items st)
         \<and> sorted_wrt (\<lambda>a b. i_updatedAt b \<le> i_updatedAt a) xs))"
  by (auto simp: GET_items_def findMany_mset findMany_desc)

lemma demo_findMany:
  "item_findMany_updatedAt_desc demo_store =
     [demo_item ''i2'' ''u1'' ''SCN-USB-200'' 22 500,
      demo_item ''i3'' ''u3'' ''PRT-THERM-500'' 8 400,
      demo_item ''i1'' ''u1'' ''LBL-THERM-100'' 120 300]"
  by (simp add: item_findMany_updatedAt_desc_def demo_items) (simp add: demo_item_def)

theorem list_returns_all_items_newest_first_witness:
  "GET_items demo_env demo_store \<lparr>rq_cookie = None, rq_body = NotJson\<rparr>
     = respond 401 (BError ''Unauthorized'')
   \<and> (\<exists>xs. GET_items demo_env demo_store (demo_request ''tok-member'' [])
          = respond 200 (BItems xs)
        \<and> mset xs = mset (items demo_store)
        \<and> sorted_wrt (\<lambda>a b. i_updatedAt b \<le> i_updatedAt a) xs)
   \<and> GET_items demo_env demo_store (demo_request ''tok-member'' [])
     = respond 200 (BItems [demo_item ''i2'' ''u1'' ''SCN-USB-200'' 22 500,
                            demo_item ''i3'' ''u3'' ''PRT-THERM-500'' 8 400,
                            demo_item ''i1'' ''u1'' ''LBL-THERM-100'' 120 300])"
proof -
  let ?anon = "\<lparr>rq_cookie = None, rq_body = NotJson\<rparr>"
  let ?rq = "demo_request ''tok-member'' []"
  have none: "requireUser demo_env demo_store (rq_cookie ?anon) = None"
    by (simp add: demo_no_cookie)
  have some: "requireUser demo_env demo_store (rq_cookie ?rq)
      = Some \<lparr>pu_id = ''u2'', pu_email = ''a@x.com'', pu_name = Some ''Alex'',
              pu_role = MEMBER\<rparr>"
    by (simp add: demo_member demo_request_def)
  from none list_returns_all_items_newest_first [of demo_env demo_store ?anon]
  have a: "GET_items demo_env demo_store ?anon = respond 401 (BError ''Unauthorized'')"
    by blast
  from some list_returns_all_items_newest_first [of demo_env demo_store ?rq]
  have b: "\<exists>xs. GET_items demo_env demo_store ?rq = respond 200 (BItems xs)
      \<and> mset xs = mset (items demo_store)
      \<and> sorted_wrt (\<lambda>a b. i_updatedAt b \<le> i_updatedAt a) xs"
    by blast
  have c: "GET_items demo_env demo_store ?rq
      = respond 200 (BItems [demo_item ''i2'' ''u1'' ''SCN-USB-200'' 22 500,
                             demo_item ''i3'' ''u3'' ''PRT-THERM-500'' 8 400,
                             demo_item ''i1'' ''u1'' ''LBL-THERM-100'' 120 300])"
    using some by (simp add: GET_items_def demo_findMany)
  from a b c show ?thesis by blast
qed

section \<open>Registration\<close>

lemma user_create_fresh:
  "user_findUnique_email st em = None \<Longrightarrow> \<not> list_ex (\<lambda>u. u_id u = i) (users st) \<Longrightarrow>
     user_create i st em n h =
       Inr (\<lparr>u_id = i, u_email = em, u_name = Some n, u_passwordHash = h, u_role = MEMBER\<rparr>,
            st\<lparr>users := users st @ [\<lparr>u_id = i, u_email = em, u_name = Some n,
                                     u_passwordHash = h, u_role = MEMBER\<rparr>]\<rparr>)"
  by (auto simp: user_create_def Let_def user_findUnique_email_def find_None_iff list_ex_iff)

lemma user_create_Inr:
  "user_create i st em n h = Inr (u, st') \<Longrightarrow>
     u = \<lparr>u_id = i, u_email = em, u_name = Some n, u_passwordHash = h, u_role = MEMBER\<rparr>
     \<and> st' = st\<lparr>users := users st @ [u]\<rparr>"
  by (auto simp: user_create_def Let_def split: if_splits)

text \<open>
  C7. For every registration body that passes \<open>registerSchema\<close>: a response with status
  201 carries exactly the object with the keys id, email, name and role of the new row
  (role MEMBER), so no passwordHash key; the hash is in the row appended to the store and
  nowhere in the response body. Such a response is given whenever the email is not yet
  registered and the generated id is new.
\<close>

theorem register_returns_public_projection:
  assumes "rq_body rq = Json b" and "registerSchema (is_email e) b = Inr r"
  shows "(\<forall>resp st'. POST_register e st rq = (Response resp, st') \<and> r_status resp = 201 \<longrightarrow>
            r_body resp = BUser (JObj [(''id'', JStr (new_id e)), (''email'', JStr (rg_email r)),
                                       (''name'', JStr (rg_name r)), (''role'', JStr ''MEMBER'')])
            \<and> (\<exists>j. r_body resp = BUser j
                  \<and> object_keys j = [''id'', ''email'', ''name'', ''role'']
                  \<and> ''passwordHash'' \<notin> set (object_keys j))
            \<and> users st' = users st @
                 [\<lparr>u_id = new_id e, u_email = rg_email r, u_name = Some (rg_name r),
                   u_passwordHash = bcrypt_hash e (rg_password r) 10, u_role = MEMBER\<rparr>])
       \<and> (user_findUnique_email st (rg_email r) = None
            \<and> \<not> list_ex (\<lambda>u. u_id u = new_id e) (users st) \<longrightarrow>
            status_of (fst (POST_register e st rq)) = Some 201)"
proof -
  have shape: "\<forall>resp st'. POST_register e st rq = (Response resp, st') \<and> r_status resp = 201 \<longrightarrow>
      r_body resp = BUser (JObj [(''id'', JStr (new_id e)), (''email'', JStr (rg_email r)),
                                 (''name'', JStr (rg_name r)), (''role'', JStr ''MEMBER'')])
      \<and> users st' = users st @
           [\<lparr>u_id = new_id e, u_email = rg_email r, u_name = Some (rg_name r),
             u_passwordHash = bcrypt_hash e (rg_password r) 10, u_role = MEMBER\<rparr>]"
  proof (intro allI impI)
    fix resp st'
    assume h: "POST_register e st rq = (Response resp, st') \<and> r_status resp = 201"
    show "r_body resp = BUser (JObj [(''id'', JStr (new_id e)), (''email'', JStr (rg_email r)),
                                     (''name'', JStr (rg_name r)), (''role'', JStr ''MEMBER'')])
      \<and> users st' = users st @
           [\<lparr>u_id = new_id e, u_email = rg_email r, u_name = Some (rg_name r),
             u_passwordHash = bcrypt_hash e (rg_password r) 10, u_role = MEMBER\<rparr>]"
    proof (cases "user_findUnique_email st (rg_email r)")
      case (Some u)
      with h assms show ?thesis by (auto simp: POST_register_def respond_def)
    next
      case None
      show ?thesis
      proof (cases "user_create (new_id e) st (rg_email r) (rg_name r)
                      (bcrypt_hash e (rg_password r) 10)")
        case (Inl err)
        with h assms None show ?thesis by (auto simp: POST_register_def respond_def)
      next
        case (Inr pair)
        obtain u st2 where pair: "pair = (u, st2)" by (cases pair)
        from Inr pair user_create_Inr
        have u: "u = \<lparr>u_id = new_id e, u_email = rg_email r, u_name = Some (rg_name r),
                      u_passwordHash = bcrypt_hash e (rg_password r) 10, u_role = MEMBER\<rparr>"
          and st2: "st2 = st\<lparr>users := users st @ [u]\<rparr>"
          by blast+
        from h assms None Inr pair have "st' = st2"
          and "r_body resp = BUser (public_user_json (select_public u))"
          by (auto simp: POST_register_def)
        with u st2 show ?thesis
          by (simp add: public_user_json_def select_public_def role_str_def)
      qed
    qed
  qed
  have reach: "user_findUnique_email st (rg_email r) = None
      \<and> \<not> list_ex (\<lambda>u. u_id u = new_id e) (users st) \<longrightarrow>
      status_of (fst (POST_register e st rq)) = Some 201"
    using assms by (auto simp: POST_register_def user_create_fresh status_of_def)
  from shape reach show ?thesis by (auto simp: object_keys_def)
qed

lemma demo_parse_register:
  "registerSchema (is_email demo_env)
     (JObj [(''email'', JStr ''n@x.com''), (''password'', JStr ''secret1''),
            (''name'', JStr ''Nia'')]) =
   Inr \<lparr>rg_email = ''n@x.com'', rg_password = ''secret1'', rg_name = ''Nia''\<rparr>"
  by (simp add: registerSchema_def z_email_def z_string_min_def z_string_def get_prop_def
      issue_at_def demo_env_def)

theorem register_returns_public_projection_witness:
  "status_of (fst (POST_register demo_env demo_store
      (demo_request [] [(''email'', JStr ''n@x.com''), (''password'', JStr ''secret1''),
                        (''name'', JStr ''Nia'')]))) = Some 201
   \<and> (\<exists>c. fst (POST_register demo_env demo_store
      (demo_request [] [(''email'', JStr ''n@x.com''), (''password'', JStr ''secret1''),
                        (''name'', JStr ''Nia'')]))
      = Response \<lparr>r_status = 201,
           r_body = BUser (JObj [(''id'', JStr ''c-new''), (''email'', JStr ''n@x.com''),
                                 (''name'', JStr ''Nia''), (''role'', JStr ''MEMBER'')]),
           r_cookie = c\<rparr>)"
proof -
  let ?kvs = "[(''email'', JStr ''n@x.com''), (''password'', JStr ''secret1''),
               (''name'', JStr ''Nia'')]"
  let ?rq = "demo_request [] ?kvs"
  let ?r = "\<lparr>rg_email = ''n@x.com'', rg_password = ''secret1'', rg_name = ''Nia''\<rparr>"
  have body: "rq_body ?rq = Json (JObj ?kvs)"
    by (simp add: demo_request_def)
  note t = register_returns_public_projection [OF body demo_parse_register, of demo_store]
  have free: "user_findUnique_email demo_store (rg_email ?r) = None
      \<and> \<not> list_ex (\<lambda>u. u_id u = new_id demo_env) (users demo_store)"
    by (simp add: user_findUnique_email_def demo_store_def demo_env_def)
  with t have ok: "status_of (fst (POST_register demo_env demo_store ?rq)) = Some 201"
    by blast
  then obtain resp st' where run: "POST_register demo_env demo_store ?rq = (Response resp, st')"
    and st: "r_status resp = 201"
    by (cases "POST_register demo_env demo_store ?rq"; cases "fst (POST_register demo_env demo_store ?rq)")
       (auto simp: status_of_def)
  with t have "r_body resp = BUser (JObj [(''id'', JStr (new_id demo_env)),
      (''email'', JStr (rg_email ?r)), (''name'', JStr (rg_name ?r)),
      (''role'', JStr ''MEMBER'')])"
    by blast
  then have "r_body resp = BUser (JObj [(''id'', JStr ''c-new''), (''email'', JStr ''n@x.com''),
      (''name'', JStr ''Nia''), (''role'', JStr ''MEMBER'')])"
    by (simp add: demo_env_def)
  with st have "resp = \<lparr>r_status = 201,
      r_body = BUser (JObj [(''id'', JStr ''c-new''), (''email'', JStr ''n@x.com''),
                            (''name'', JStr ''Nia''), (''role'', JStr ''MEMBER'')]),
      r_cookie = r_cookie resp\<rparr>"
    by simp
  with run ok show ?thesis by (metis fst_conv)
qed

section \<open>Updating an item\<close>

lemma item_update_found:
  "item_findUnique st iid = Some old \<Longrightarrow>
   \<not> owner_sku_taken (st\<lparr>items := filter (\<lambda>i. i_id i \<noteq> iid) (items st)\<rparr>)
        (i_ownerId old) (i_sku (apply_patch t p old)) \<Longrightarrow>
     item_update t st iid p =
       Inr (apply_patch t p old,
            st\<lparr>items := map (\<lambda>i. if i_id i = iid then apply_patch t p old else i) (items st)\<rparr>)"
  by (simp add: item_update_def Let_def apply_patch_def)


lemma find_replaced:
  "find (\<lambda>i. i_id i = iid) xs = Some old \<Longrightarrow> i_id it = iid \<Longrightarrow>
     find (\<lambda>i. i_id i = iid) (map (\<lambda>i. if i_id i = iid then it else i) xs) = Some it"
  by (induction xs) (auto split: if_splits)

lemma find_item_id: "find (\<lambda>i. i_id i = iid) xs = Some old \<Longrightarrow> i_id old = iid"
  by (auto simp: find_Some_iff)




lemma demo_parse_patch_sku:
  "itemUpdateSchema (Number_other demo_env) (JObj [(''sku'', JStr ''LBL-THERM-100'')]) =
   Inr \<lparr>p_name = None, p_sku = Some ''LBL-THERM-100'', p_quantity = None,
        p_category = Undefined, p_location = Undefined, p_minStock = 0,
        p_notes = Undefined, p_status = ACTIVE\<rparr>"
  by (simp add: itemUpdateSchema_def field_defs)



text \<open>
  Where the proviso of the update theorem fails, the store rejects the write and the
  handler, which has no \<open>catch\<close>, lets the exception escape: Alex renames the scanner
  \<open>i2\<close> to the SKU of the label rolls of the same owner.
\<close>

lemma update_sku_collision_escapes:
  "PATCH_item demo_env demo_store
     (demo_request ''tok-member'' [(''sku'', JStr ''LBL-THERM-100'')]) ''i2''
   = (Threw (PrismaError UniqueConstraintFailed), demo_store)"
proof -
  have "item_update (now demo_env) demo_store ''i2''
      \<lparr>p_name = None, p_sku = Some ''LBL-THERM-100'', p_quantity = None,
       p_category = Undefined, p_location = Undefined, p_minStock = 0,
       p_notes = Undefined, p_status = ACTIVE\<rparr> = Inl UniqueConstraintFailed"
    by (simp add: item_update_def demo_find_i2 Let_def apply_patch_def owner_sku_taken_def
        demo_items)
       (simp add: demo_item_def)
  then show ?thesis
    by (simp add: PATCH_item_def demo_request_def demo_member demo_parse_patch_sku demo_find_i2)
qed

section \<open>String-encoded numbers in item payloads\<close>

lemma digit_is_no_sign: "is_digit c \<Longrightarrow> c \<noteq> CHR ''-'' \<and> c \<noteq> CHR ''+''"
  by (auto simp: is_digit_def)

lemma signed_digits_unsigned:
  "s \<noteq> [] \<Longrightarrow> list_all is_digit s \<Longrightarrow> signed_digits s = digits_number s"
  by (cases s) (auto simp: signed_digits_def dest: digit_is_no_sign)

lemma js_Number_digits:
  "s \<noteq> [] \<Longrightarrow> list_all is_digit s \<Longrightarrow> int (digits_value 0 s) \<le> 2 ^ 53 \<Longrightarrow>
     js_Number other (Some (JStr s)) = Whole (int (digits_value 0 s))"
  by (simp add: js_Number_def signed_digits_unsigned digits_number_def)

lemma js_Number_negative:
  "d \<noteq> [] \<Longrightarrow> list_all is_digit d \<Longrightarrow> int (digits_value 0 d) \<le> 2 ^ 53 \<Longrightarrow>
     js_Number other (Some (JStr (CHR ''-'' # d))) = Whole (- int (digits_value 0 d))"
  by (simp add: js_Number_def signed_digits_def digits_number_def)

lemma coerce_iff:
  "(z_coerce_int_min0 other v = Some m)
     = (js_Number other v = Whole m \<and> 0 \<le> m \<and> m \<le> MAX_SAFE_INTEGER)"
  by (auto simp: z_coerce_int_min0_def z_int_min0_def MAX_SAFE_INTEGER_def split: jsnum.splits)

lemma coerce_digits:
  "s \<noteq> [] \<Longrightarrow> list_all is_digit s \<Longrightarrow> int (digits_value 0 s) \<le> MAX_SAFE_INTEGER \<Longrightarrow>
     z_coerce_int_min0 other (Some (JStr s)) = Some (int (digits_value 0 s))"
  by (simp add: coerce_iff js_Number_digits MAX_SAFE_INTEGER_def)

lemma coerce_whole:
  "0 \<le> n \<Longrightarrow> n \<le> MAX_SAFE_INTEGER \<Longrightarrow>
     z_coerce_int_min0 other (Some (JNum (Whole n))) = Some n"
  by (simp add: coerce_iff js_Number_def)

lemma coerce_negative:
  "d \<noteq> [] \<Longrightarrow> list_all is_digit d \<Longrightarrow> 0 < digits_value 0 d \<Longrightarrow>
   int (digits_value 0 d) \<le> 2 ^ 53 \<Longrightarrow>
     z_coerce_int_min0 other (Some (JStr (CHR ''-'' # d))) = None"
  by (simp add: z_coerce_int_min0_def js_Number_negative z_int_min0_def)

lemma coerce_unsafe:
  "d \<noteq> [] \<Longrightarrow> list_all is_digit d \<Longrightarrow> int (digits_value 0 d) = 2 ^ 53 \<Longrightarrow>
     z_coerce_int_min0 other (Some (JStr d)) = None"
  by (simp add: z_coerce_int_min0_def js_Number_digits z_int_min0_def MAX_SAFE_INTEGER_def)

lemma itemSchema_numbers:
  "itemSchema other (JObj kvs) = Inr d \<Longrightarrow>
     z_coerce_int_min0 other (get_prop kvs ''quantity'') = Some (in_quantity d)
     \<and> z_coerce_int_min0_default other (get_prop kvs ''minStock'') = Some (in_minStock d)"
  by (auto simp: itemSchema_def Let_def split: option.splits)

lemma itemUpdateSchema_numbers:
  "itemUpdateSchema other (JObj kvs) = Inr p \<Longrightarrow>
     z_optional (z_coerce_int_min0 other) (get_prop kvs ''quantity'') = Some (p_quantity p)
     \<and> z_coerce_int_min0_default other (get_prop kvs ''minStock'') = Some (p_minStock p)"
  by (auto simp: itemUpdateSchema_def Let_def split: option.splits)

lemma POST_items_created:
  assumes "requireUser e st (rq_cookie rq) = Some u" and "pu_role u = ADMIN"
    and "rq_body rq = Json b" and "itemSchema (Number_other e) b = Inr d"
    and "\<not> list_ex (\<lambda>i. i_id i = new_id e) (items st)"
    and "\<not> owner_sku_taken st (pu_id u) (in_sku d)"
  shows "\<exists>it. POST_items e st rq = (respond 201 (BItem it), st\<lparr>items := items st @ [it]\<rparr>)
           \<and> i_ownerId it = pu_id u \<and> i_quantity it = in_quantity d
           \<and> i_minStock it = in_minStock d"
proof -
  let ?it = "\<lparr>i_id = new_id e, i_ownerId = pu_id u, i_sku = in_sku d, i_name = in_name d,
              i_quantity = in_quantity d, i_minStock = in_minStock d,
              i_category = column_of (in_category d),
              i_location = column_of (in_location d),
              i_notes = column_of (in_notes d), i_status = in_status d,
              i_createdAt = now e, i_updatedAt = now e\<rparr>"
  from assms have "POST_items e st rq =
      (respond 201 (BItem ?it), st\<lparr>items := items st @ [?it]\<rparr>)"
    by (simp add: POST_items_def item_create_def Let_def)
  then show ?thesis
    by (intro exI [of _ ?it]) simp
qed

lemma PATCH_item_written:
  assumes "requireUser e st (rq_cookie rq) = Some u" and "rq_body rq = Json b"
    and "itemUpdateSchema (Number_other e) b = Inr p"
    and "item_findUnique st iid = Some old"
    and "\<not> owner_sku_taken (st\<lparr>items := filter (\<lambda>i. i_id i \<noteq> iid) (items st)\<rparr>)
           (i_ownerId old) (case p_sku p of None \<Rightarrow> i_sku old | Some x \<Rightarrow> x)"
  shows "PATCH_item e st rq iid =
           (respond 200 (BItem (apply_patch (now e) p old)),
            st\<lparr>items := map (\<lambda>i. if i_id i = iid then apply_patch (now e) p old else i)
                            (items st)\<rparr>)
         \<and> item_findUnique (snd (PATCH_item e st rq iid)) iid
             = Some (apply_patch (now e) p old)"
proof -
  let ?it = "apply_patch (now e) p old"
  have sku: "i_sku ?it = (case p_sku p of None \<Rightarrow> i_sku old | Some x \<Rightarrow> x)"
    by (simp add: apply_patch_def)
  have same_id: "i_id ?it = iid"
    using assms(4) find_item_id [of iid "items st" old]
    by (simp add: apply_patch_def item_findUnique_def)
  from assms(4,5) sku have "item_update (now e) st iid p =
      Inr (?it, st\<lparr>items := map (\<lambda>i. if i_id i = iid then ?it else i) (items st)\<rparr>)"
    by (simp add: item_update_found)
  with assms have run: "PATCH_item e st rq iid =
      (respond 200 (BItem ?it),
       st\<lparr>items := map (\<lambda>i. if i_id i = iid then ?it else i) (items st)\<rparr>)"
    by (simp add: PATCH_item_def)
  have "item_findUnique (snd (PATCH_item e st rq iid)) iid = Some ?it"
    using assms(4) same_id find_replaced [of iid "items st" old ?it]
    by (simp add: run item_findUnique_def)
  with run show ?thesis by simp
qed

text \<open>
  C10. In a create or update payload, \<open>quantity\<close> and \<open>minStock\<close> are coerced with
  \<open>Number\<close> before the integer and range checks: a value is accepted exactly when its
  coercion is a safe integer that is not negative. So a string of decimal digits (such as
  "5") that denotes a safe integer is accepted with that number and raises no issue, and
  the payload parses exactly as the payload carrying the number itself; a digit string
  with a minus sign is coerced to a negative number and rejected by the range check, and
  the digits of \<open>2^53\<close> by the integer check. The create handler appends an item with the
  number to the store and the update handler writes the number to the stored item.
\<close>

theorem digit_strings_are_coerced:
  assumes "s \<noteq> []" and "list_all is_digit s"
    and "int (digits_value 0 s) \<le> MAX_SAFE_INTEGER"
    and "k = ''quantity'' \<or> k = ''minStock''"
    and "get_prop kvs k = Some (JStr s)"
    and "get_prop kvs' k = Some (JNum (Whole (int (digits_value 0 s))))"
    and "\<forall>k'. k' \<noteq> k \<longrightarrow> get_prop kvs' k' = get_prop kvs k'"
  shows "z_coerce_int_min0 other (get_prop kvs k) = Some (int (digits_value 0 s))
       \<and> z_coerce_int_min0_default other (get_prop kvs k) = Some (int (digits_value 0 s))
       \<and> z_optional (z_coerce_int_min0 other) (get_prop kvs k)
           = Some (Some (int (digits_value 0 s)))
       \<and> itemSchema other (JObj kvs) = itemSchema other (JObj kvs')
       \<and> itemUpdateSchema other (JObj kvs) = itemUpdateSchema other (JObj kvs')
       \<and> (\<forall>issues. itemSchema other (JObj kvs) = Inl issues \<longrightarrow> [k] \<notin> set issues)
       \<and> (\<forall>issues. itemUpdateSchema other (JObj kvs) = Inl issues \<longrightarrow> [k] \<notin> set issues)
       \<and> (\<forall>e st c. POST_items e st \<lparr>rq_cookie = c, rq_body = Json (JObj kvs)\<rparr>
                    = POST_items e st \<lparr>rq_cookie = c, rq_body = Json (JObj kvs')\<rparr>)
       \<and> (\<forall>e st c iid. PATCH_item e st \<lparr>rq_cookie = c, rq_body = Json (JObj kvs)\<rparr> iid
                    = PATCH_item e st \<lparr>rq_cookie = c, rq_body = Json (JObj kvs')\<rparr> iid)
       \<and> (\<forall>v m. (z_coerce_int_min0 other v = Some m)
                    = (js_Number other v = Whole m \<and> 0 \<le> m \<and> m \<le> MAX_SAFE_INTEGER))
       \<and> (\<forall>d. d \<noteq> [] \<and> list_all is_digit d \<and> 0 < digits_value 0 d
               \<and> int (digits_value 0 d) \<le> 2 ^ 53 \<longrightarrow>
             js_Number other (Some (JStr (CHR ''-'' # d))) = Whole (- int (digits_value 0 d))
             \<and> z_coerce_int_min0 other (Some (JStr (CHR ''-'' # d))) = None)
       \<and> (\<forall>d. d \<noteq> [] \<and> list_all is_digit d \<and> int (digits_value 0 d) = 2 ^ 53 \<longrightarrow>
             js_Number other (Some (JStr d)) = Whole (2 ^ 53)
             \<and> z_coerce_int_min0 other (Some (JStr d)) = None)
       \<and> (\<forall>e st c u inp. requireUser e st c = Some u \<and> pu_role u = ADMIN
               \<and> itemSchema (Number_other e) (JObj kvs) = Inr inp
               \<and> \<not> list_ex (\<lambda>i. i_id i = new_id e) (items st)
               \<and> \<not> owner_sku_taken st (pu_id u) (in_sku inp) \<longrightarrow>
             (\<exists>it. POST_items e st \<lparr>rq_cookie = c, rq_body = Json (JObj kvs)\<rparr>
                      = (respond 201 (BItem it), st\<lparr>items := items st @ [it]\<rparr>)
                \<and> i_ownerId it = pu_id u
                \<and> (k = ''quantity'' \<longrightarrow> i_quantity it = int (digits_value 0 s))
                \<and> (k = ''minStock'' \<longrightarrow> i_minStock it = int (digits_value 0 s))))
       \<and> (\<forall>e st c u p iid old. requireUser e st c = Some u
               \<and> itemUpdateSchema (Number_other e) (JObj kvs) = Inr p
               \<and> item_findUnique st iid = Some old
               \<and> \<not> owner_sku_taken (st\<lparr>items := filter (\<lambda>i. i_id i \<noteq> iid) (items st)\<rparr>)
                     (i_ownerId old) (case p_sku p of None \<Rightarrow> i_sku old | Some x \<Rightarrow> x) \<longrightarrow>
             (\<exists>it. PATCH_item e st \<lparr>rq_cookie = c, rq_body = Json (JObj kvs)\<rparr> iid
                      = (respond 200 (BItem it),
                         st\<lparr>items := map (\<lambda>i. if i_id i = iid then it else i) (items st)\<rparr>)
                \<and> item_findUnique
                     (snd (PATCH_item e st \<lparr>rq_cookie = c, rq_body = Json (JObj kvs)\<rparr> iid)) iid
                     = Some it
                \<and> (k = ''quantity'' \<longrightarrow> i_quantity it = int (digits_value 0 s))
                \<and> (k = ''minStock'' \<longrightarrow> i_minStock it = int (digits_value 0 s))))"
proof -
  let ?n = "int (digits_value 0 s)"
  note digits = assms(1-3)
  have others: "\<And>k'. k' \<noteq> k \<Longrightarrow> get_prop kvs' k' = get_prop kvs k'"
    using assms(7) by blast
  have str: "\<And>f. z_coerce_int_min0 f (Some (JStr s)) = Some ?n"
    using digits by (rule coerce_digits)
  have num: "\<And>f. z_coerce_int_min0 f (Some (JNum (Whole ?n))) = Some ?n"
    using assms(3) by (simp add: coerce_whole)
  have field: "\<And>f. z_coerce_int_min0 f (get_prop kvs k) = Some ?n
      \<and> z_coerce_int_min0_default f (get_prop kvs k) = Some ?n
      \<and> z_optional (z_coerce_int_min0 f) (get_prop kvs k) = Some (Some ?n)"
    using assms(5) str by (simp add: z_coerce_int_min0_default_def z_optional_def)
  have create: "\<And>f. itemSchema f (JObj kvs) = itemSchema f (JObj kvs')"
    using assms(4)
  proof
    assume q: "k = ''quantity''"
    fix f show "itemSchema f (JObj kvs) = itemSchema f (JObj kvs')"
      using assms(5,6) others str num
      by (simp add: q itemSchema_def)
  next
    assume m: "k = ''minStock''"
    fix f show "itemSchema f (JObj kvs) = itemSchema f (JObj kvs')"
      using assms(5,6) others str num
      by (simp add: m itemSchema_def z_coerce_int_min0_default_def)
  qed
  have update: "\<And>f. itemUpdateSchema f (JObj kvs) = itemUpdateSchema f (JObj kvs')"
    using assms(4)
  proof
    assume q: "k = ''quantity''"
    fix f show "itemUpdateSchema f (JObj kvs) = itemUpdateSchema f (JObj kvs')"
      using assms(5,6) others str num
      by (simp add: q itemUpdateSchema_def z_optional_def)
  next
    assume m: "k = ''minStock''"
    fix f show "itemUpdateSchema f (JObj kvs) = itemUpdateSchema f (JObj kvs')"
      using assms(5,6) others str num
      by (simp add: m itemUpdateSchema_def z_coerce_int_min0_default_def)
  qed
  have no_issue: "\<forall>issues. itemSchema other (JObj kvs) = Inl issues \<longrightarrow> [k] \<notin> set issues"
    using assms(4)
  proof
    assume q: "k = ''quantity''"
    with field [of other] show ?thesis
      by (auto simp: itemSchema_def Let_def issue_at_def split: if_splits option.splits)
  next
    assume m: "k = ''minStock''"
    with field [of other] show ?thesis
      by (auto simp: itemSchema_def Let_def issue_at_def split: if_splits option.splits)
  qed
  have no_issue_update:
    "\<forall>issues. itemUpdateSchema other (JObj kvs) = Inl issues \<longrightarrow> [k] \<notin> set issues"
    using assms(4)
  proof
    assume q: "k = ''quantity''"
    with field [of other] show ?thesis
      by (auto simp: itemUpdateSchema_def Let_def issue_at_def split: if_splits option.splits)
  next
    assume m: "k = ''minStock''"
    with field [of other] show ?thesis
      by (auto simp: itemUpdateSchema_def Let_def issue_at_def split: if_splits option.splits)
  qed
  have post: "\<forall>e st c. POST_items e st \<lparr>rq_cookie = c, rq_body = Json (JObj kvs)\<rparr>
      = POST_items e st \<lparr>rq_cookie = c, rq_body = Json (JObj kvs')\<rparr>"
    by (simp add: POST_items_def create split: option.splits)
  have patch: "\<forall>e st c iid. PATCH_item e st \<lparr>rq_cookie = c, rq_body = Json (JObj kvs)\<rparr> iid
      = PATCH_item e st \<lparr>rq_cookie = c, rq_body = Json (JObj kvs')\<rparr> iid"
    by (simp add: PATCH_item_def update split: option.splits)
  have law: "\<forall>v m. (z_coerce_int_min0 other v = Some m)
      = (js_Number other v = Whole m \<and> 0 \<le> m \<and> m \<le> MAX_SAFE_INTEGER)"
    by (simp add: coerce_iff)
  have negative: "\<forall>d. d \<noteq> [] \<and> list_all is_digit d \<and> 0 < digits_value 0 d
      \<and> int (digits_value 0 d) \<le> 2 ^ 53 \<longrightarrow>
      js_Number other (Some (JStr (CHR ''-'' # d))) = Whole (- int (digits_value 0 d))
      \<and> z_coerce_int_min0 other (Some (JStr (CHR ''-'' # d))) = None"
    by (simp add: js_Number_negative coerce_negative)
  have unsafe: "\<forall>d. d \<noteq> [] \<and> list_all is_digit d \<and> int (digits_value 0 d) = 2 ^ 53 \<longrightarrow>
      js_Number other (Some (JStr d)) = Whole (2 ^ 53)
      \<and> z_coerce_int_min0 other (Some (JStr d)) = None"
  proof (intro allI impI)
    fix d
    assume h: "d \<noteq> [] \<and> list_all is_digit d \<and> int (digits_value 0 d) = 2 ^ 53"
    then have "js_Number other (Some (JStr d)) = Whole (int (digits_value 0 d))"
      by (simp add: js_Number_digits)
    with h show "js_Number other (Some (JStr d)) = Whole (2 ^ 53)
        \<and> z_coerce_int_min0 other (Some (JStr d)) = None"
      by (simp add: coerce_unsafe)
  qed
  have created: "\<forall>e st c u inp. requireUser e st c = Some u \<and> pu_role u = ADMIN
      \<and> itemSchema (Number_other e) (JObj kvs) = Inr inp
      \<and> \<not> list_ex (\<lambda>i. i_id i = new_id e) (items st)
      \<and> \<not> owner_sku_taken st (pu_id u) (in_sku inp) \<longrightarrow>
      (\<exists>it. POST_items e st \<lparr>rq_cookie = c, rq_body = Json (JObj kvs)\<rparr>
               = (respond 201 (BItem it), st\<lparr>items := items st @ [it]\<rparr>)
         \<and> i_ownerId it = pu_id u
         \<and> (k = ''quantity'' \<longrightarrow> i_quantity it = ?n)
         \<and> (k = ''minStock'' \<longrightarrow> i_minStock it = ?n))"
  proof (intro allI impI)
    fix e st c u inp
    assume h: "requireUser e st c = Some u \<and> pu_role u = ADMIN
      \<and> itemSchema (Number_other e) (JObj kvs) = Inr inp
      \<and> \<not> list_ex (\<lambda>i. i_id i = new_id e) (items st)
      \<and> \<not> owner_sku_taken st (pu_id u) (in_sku inp)"
    let ?rq = "\<lparr>rq_cookie = c, rq_body = Json (JObj kvs)\<rparr>"
    from h have "requireUser e st (rq_cookie ?rq) = Some u" and "pu_role u = ADMIN"
      and "rq_body ?rq = Json (JObj kvs)"
      and "itemSchema (Number_other e) (JObj kvs) = Inr inp"
      and "\<not> list_ex (\<lambda>i. i_id i = new_id e) (items st)"
      and "\<not> owner_sku_taken st (pu_id u) (in_sku inp)"
      by simp_all
    then obtain it where run: "POST_items e st ?rq
          = (respond 201 (BItem it), st\<lparr>items := items st @ [it]\<rparr>)"
      and own: "i_ownerId it = pu_id u"
      and q: "i_quantity it = in_quantity inp" and m: "i_minStock it = in_minStock inp"
      using POST_items_created [of e st ?rq u "JObj kvs" inp] by blast
    from h itemSchema_numbers [of "Number_other e" kvs inp] field [of "Number_other e"]
    have "(k = ''quantity'' \<longrightarrow> in_quantity inp = ?n)
        \<and> (k = ''minStock'' \<longrightarrow> in_minStock inp = ?n)"
      by auto
    with run own q m
    show "\<exists>it. POST_items e st ?rq = (respond 201 (BItem it), st\<lparr>items := items st @ [it]\<rparr>)
        \<and> i_ownerId it = pu_id u
        \<and> (k = ''quantity'' \<longrightarrow> i_quantity it = ?n)
        \<and> (k = ''minStock'' \<longrightarrow> i_minStock it = ?n)"
      by (intro exI [of _ it]) simp
  qed
  have written: "\<forall>e st c u p iid old. requireUser e st c = Some u
      \<and> itemUpdateSchema (Number_other e) (JObj kvs) = Inr p
      \<and> item_findUnique st iid = Some old
      \<and> \<not> owner_sku_taken (st\<lparr>items := filter (\<lambda>i. i_id i \<noteq> iid) (items st)\<rparr>)
            (i_ownerId old) (case p_sku p of None \<Rightarrow> i_sku old | Some x \<Rightarrow> x) \<longrightarrow>
      (\<exists>it. PATCH_item e st \<lparr>rq_cookie = c, rq_body = Json (JObj kvs)\<rparr> iid
               = (respond 200 (BItem it),
                  st\<lparr>items := map (\<lambda>i. if i_id i = iid then it else i) (items st)\<rparr>)
         \<and> item_findUnique
              (snd (PATCH_item e st \<lparr>rq_cookie = c, rq_body = Json (JObj kvs)\<rparr> iid)) iid
              = Some it
         \<and> (k = ''quantity'' \<longrightarrow> i_quantity it = ?n)
         \<and> (k = ''minStock'' \<longrightarrow> i_minStock it = ?n))"
  proof (intro allI impI)
    fix e st c u p iid old
    assume h: "requireUser e st c = Some u
      \<and> itemUpdateSchema (Number_other e) (JObj kvs) = Inr p
      \<and> item_findUnique st iid = Some old
      \<and> \<not> owner_sku_taken (st\<lparr>items := filter (\<lambda>i. i_id i \<noteq> iid) (items st)\<rparr>)
            (i_ownerId old) (case p_sku p of None \<Rightarrow> i_sku old | Some x \<Rightarrow> x)"
    let ?rq = "\<lparr>rq_cookie = c, rq_body = Json (JObj kvs)\<rparr>"
    let ?it = "apply_patch (now e) p old"
    from h have "requireUser e st (rq_cookie ?rq) = Some u"
      and "rq_body ?rq = Json (JObj kvs)"
      and "itemUpdateSchema (Number_other e) (JObj kvs) = Inr p"
      and "item_findUnique st iid = Some old"
      and "\<not> owner_sku_taken (st\<lparr>items := filter (\<lambda>i. i_id i \<noteq> iid) (items st)\<rparr>)
            (i_ownerId old) (case p_sku p of None \<Rightarrow> i_sku old | Some x \<Rightarrow> x)"
      by simp_all
    then have run: "PATCH_item e st ?rq iid =
          (respond 200 (BItem ?it),
           st\<lparr>items := map (\<lambda>i. if i_id i = iid then ?it else i) (items st)\<rparr>)
        \<and> item_findUnique (snd (PATCH_item e st ?rq iid)) iid = Some ?it"
      by (rule PATCH_item_written)
    from h itemUpdateSchema_numbers [of "Number_other e" kvs p] field [of "Number_other e"]
    have "(k = ''quantity'' \<longrightarrow> p_quantity p = Some ?n)
        \<and> (k = ''minStock'' \<longrightarrow> p_minStock p = ?n)"
      by auto
    then have "(k = ''quantity'' \<longrightarrow> i_quantity ?it = ?n)
        \<and> (k = ''minStock'' \<longrightarrow> i_minStock ?it = ?n)"
      by (simp add: apply_patch_def)
    with run
    show "\<exists>it. PATCH_item e st ?rq iid
               = (respond 200 (BItem it),
                  st\<lparr>items := map (\<lambda>i. if i_id i = iid then it else i) (items st)\<rparr>)
         \<and> item_findUnique (snd (PATCH_item e st ?rq iid)) iid = Some it
         \<and> (k = ''quantity'' \<longrightarrow> i_quantity it = ?n)
         \<and> (k = ''minStock'' \<longrightarrow> i_minStock it = ?n)"
      by (intro exI [of _ ?it]) blast
  qed
  from field [of other] create [of other] update [of other] no_issue no_issue_update post patch
    law negative unsafe created written
  show ?thesis by (intro conjI) simp_all
qed

lemma demo_parse_widget:
  "itemSchema (Number_other demo_env)
     (JObj [(''name'', JStr ''Widget''), (''sku'', JStr ''W-1''),
            (''quantity'', JStr ''5''), (''minStock'', JStr ''2'')]) =
   Inr \<lparr>in_name = ''Widget'', in_sku = ''W-1'', in_quantity = 5, in_category = Undefined,
        in_location = Undefined, in_minStock = 2, in_notes = Undefined, in_status = ACTIVE\<rparr>"
  by (simp add: itemSchema_def field_defs)

lemma demo_parse_patch_string:
  "itemUpdateSchema (Number_other demo_env) (JObj [(''quantity'', JStr ''1'')]) =
   Inr \<lparr>p_name = None, p_sku = None, p_quantity = Some 1, p_category = Undefined,
        p_location = Undefined, p_minStock = 0, p_notes = Undefined, p_status = ACTIVE\<rparr>"
  by (simp add: itemUpdateSchema_def field_defs)

lemma demo_widget_is_new:
  "\<not> list_ex (\<lambda>i. i_id i = new_id demo_env) (items demo_store)
   \<and> \<not> owner_sku_taken demo_store ''u1'' ''W-1''"
  by (simp add: owner_sku_taken_def demo_items) (simp add: demo_item_def demo_env_def)

theorem digit_strings_are_coerced_witness:
  "itemSchema (Number_other demo_env)
     (JObj [(''name'', JStr ''Widget''), (''sku'', JStr ''W-1''),
            (''quantity'', JStr ''5''), (''minStock'', JStr ''2'')])
   = itemSchema (Number_other demo_env)
     (JObj [(''name'', JStr ''Widget''), (''sku'', JStr ''W-1''),
            (''quantity'', JNum (Whole 5)), (''minStock'', JStr ''2'')])
   \<and> (\<exists>it. POST_items demo_env demo_store
          (demo_request ''tok-admin''
             [(''name'', JStr ''Widget''), (''sku'', JStr ''W-1''),
              (''quantity'', JStr ''5''), (''minStock'', JStr ''2'')])
          = (respond 201 (BItem it), demo_store\<lparr>items := items demo_store @ [it]\<rparr>)
        \<and> i_ownerId it = ''u1'' \<and> i_quantity it = 5 \<and> i_minStock it = 2)
   \<and> (\<exists>it. item_findUnique (snd (PATCH_item demo_env demo_store
          (demo_request ''tok-member'' [(''quantity'', JStr ''1'')]) ''i3'')) ''i3'' = Some it
        \<and> i_quantity it = 1)
   \<and> js_Number (Number_other demo_env) (Some (JStr ''-5'')) = Whole (- 5)
   \<and> z_coerce_int_min0 (Number_other demo_env) (Some (JStr ''-5'')) = None
   \<and> z_coerce_int_min0 (Number_other demo_env) (Some (JStr ''9007199254740992'')) = None"
proof -
  let ?f = "Number_other demo_env"
  let ?a = "[(''name'', JStr ''Widget''), (''sku'', JStr ''W-1''),
             (''quantity'', JStr ''5''), (''minStock'', JStr ''2'')]"
  let ?b = "[(''name'', JStr ''Widget''), (''sku'', JStr ''W-1''),
             (''quantity'', JNum (Whole 5)), (''minStock'', JStr ''2'')]"
  let ?c = "[(''name'', JStr ''Widget''), (''sku'', JStr ''W-1''),
             (''quantity'', JStr ''5''), (''minStock'', JNum (Whole 2))]"
  let ?u = "[(''quantity'', JStr ''1'')]"
  let ?v = "[(''quantity'', JNum (Whole 1))]"
  let ?inp = "\<lparr>in_name = ''Widget'', in_sku = ''W-1'', in_quantity = 5,
                in_category = Undefined, in_location = Undefined, in_minStock = 2,
                in_notes = Undefined, in_status = ACTIVE\<rparr>"
  let ?p = "\<lparr>p_name = None, p_sku = None, p_quantity = Some 1, p_category = Undefined,
              p_location = Undefined, p_minStock = 0, p_notes = Undefined,
              p_status = ACTIVE\<rparr>"
  let ?old = "demo_item ''i3'' ''u3'' ''PRT-THERM-500'' 8 400"
  let ?admin = "\<lparr>pu_id = ''u1'', pu_email = ''demo@stockpilot.dev'',
                  pu_name = Some ''Demo Manager'', pu_role = ADMIN\<rparr>"
  let ?alex = "\<lparr>pu_id = ''u2'', pu_email = ''a@x.com'', pu_name = Some ''Alex'',
                 pu_role = MEMBER\<rparr>"
  have d5: "''5'' \<noteq> []" "list_all is_digit ''5''"
    "int (digits_value 0 ''5'') \<le> MAX_SAFE_INTEGER"
    by (simp_all add: is_digit_def digit_val_def MAX_SAFE_INTEGER_def)
  have d2: "''2'' \<noteq> []" "list_all is_digit ''2''"
    "int (digits_value 0 ''2'') \<le> MAX_SAFE_INTEGER"
    by (simp_all add: is_digit_def digit_val_def MAX_SAFE_INTEGER_def)
  have d1: "''1'' \<noteq> []" "list_all is_digit ''1''"
    "int (digits_value 0 ''1'') \<le> MAX_SAFE_INTEGER"
    by (simp_all add: is_digit_def digit_val_def MAX_SAFE_INTEGER_def)
  have q: "''quantity'' = ''quantity'' \<or> ''quantity'' = ''minStock''" by simp
  have m: "''minStock'' = ''quantity'' \<or> ''minStock'' = ''minStock''" by simp
  have qa: "get_prop ?a ''quantity'' = Some (JStr ''5'')"
    "get_prop ?b ''quantity'' = Some (JNum (Whole (int (digits_value 0 ''5''))))"
    "\<forall>k'. k' \<noteq> ''quantity'' \<longrightarrow> get_prop ?b k' = get_prop ?a k'"
    by (simp_all add: get_prop_def digit_val_def)
  have ma: "get_prop ?a ''minStock'' = Some (JStr ''2'')"
    "get_prop ?c ''minStock'' = Some (JNum (Whole (int (digits_value 0 ''2''))))"
    "\<forall>k'. k' \<noteq> ''minStock'' \<longrightarrow> get_prop ?c k' = get_prop ?a k'"
    by (simp_all add: get_prop_def digit_val_def)
  have qu: "get_prop ?u ''quantity'' = Some (JStr ''1'')"
    "get_prop ?v ''quantity'' = Some (JNum (Whole (int (digits_value 0 ''1''))))"
    "\<forall>k'. k' \<noteq> ''quantity'' \<longrightarrow> get_prop ?v k' = get_prop ?u k'"
    by (simp_all add: get_prop_def digit_val_def)
  note tq = digit_strings_are_coerced [OF d5 q qa, of ?f]
  note tm = digit_strings_are_coerced [OF d2 m ma, of ?f]
  note tu = digit_strings_are_coerced [OF d1 q qu, of ?f]
  have same: "itemSchema ?f (JObj ?a) = itemSchema ?f (JObj ?b)"
    by (insert tq, elim conjE, assumption)
  have create_q: "\<forall>e st c u inp. requireUser e st c = Some u \<and> pu_role u = ADMIN
      \<and> itemSchema (Number_other e) (JObj ?a) = Inr inp
      \<and> \<not> list_ex (\<lambda>i. i_id i = new_id e) (items st)
      \<and> \<not> owner_sku_taken st (pu_id u) (in_sku inp) \<longrightarrow>
      (\<exists>it. POST_items e st \<lparr>rq_cookie = c, rq_body = Json (JObj ?a)\<rparr>
               = (respond 201 (BItem it), st\<lparr>items := items st @ [it]\<rparr>)
         \<and> i_ownerId it = pu_id u
         \<and> (''quantity'' = ''quantity'' \<longrightarrow> i_quantity it = int (digits_value 0 ''5''))
         \<and> (''quantity'' = ''minStock'' \<longrightarrow> i_minStock it = int (digits_value 0 ''5'')))"
    by (insert tq, elim conjE, assumption)
  have create_m: "\<forall>e st c u inp. requireUser e st c = Some u \<and> pu_role u = ADMIN
      \<and> itemSchema (Number_other e) (JObj ?a) = Inr inp
      \<and> \<not> list_ex (\<lambda>i. i_id i = new_id e) (items st)
      \<and> \<not> owner_sku_taken st (pu_id u) (in_sku inp) \<longrightarrow>
      (\<exists>it. POST_items e st \<lparr>rq_cookie = c, rq_body = Json (JObj ?a)\<rparr>
               = (respond 201 (BItem it), st\<lparr>items := items st @ [it]\<rparr>)
         \<and> i_ownerId it = pu_id u
         \<and> (''minStock'' = ''quantity'' \<longrightarrow> i_quantity it = int (digits_value 0 ''2''))
         \<and> (''minStock'' = ''minStock'' \<longrightarrow> i_minStock it = int (digits_value 0 ''2'')))"
    by (insert tm, elim conjE, assumption)
  have update_q: "\<forall>e st c u p iid old. requireUser e st c = Some u
      \<and> itemUpdateSchema (Number_other e) (JObj ?u) = Inr p
      \<and> item_findUnique st iid = Some old
      \<and> \<not> owner_sku_taken (st\<lparr>items := filter (\<lambda>i. i_id i \<noteq> iid) (items st)\<rparr>)
            (i_ownerId old) (case p_sku p of None \<Rightarrow> i_sku old | Some x \<Rightarrow> x) \<longrightarrow>
      (\<exists>it. PATCH_item e st \<lparr>rq_cookie = c, rq_body = Json (JObj ?u)\<rparr> iid
               = (respond 200 (BItem it),
                  st\<lparr>items := map (\<lambda>i. if i_id i = iid then it else i) (items st)\<rparr>)
         \<and> item_findUnique
              (snd (PATCH_item e st \<lparr>rq_cookie = c, rq_body = Json (JObj ?u)\<rparr> iid)) iid
              = Some it
         \<and> (''quantity'' = ''quantity'' \<longrightarrow> i_quantity it = int (digits_value 0 ''1''))
         \<and> (''quantity'' = ''minStock'' \<longrightarrow> i_minStock it = int (digits_value 0 ''1'')))"
    by (insert tu, elim conjE, assumption)
  have neg: "\<forall>d. d \<noteq> [] \<and> list_all is_digit d \<and> 0 < digits_value 0 d
      \<and> int (digits_value 0 d) \<le> 2 ^ 53 \<longrightarrow>
      js_Number ?f (Some (JStr (CHR ''-'' # d))) = Whole (- int (digits_value 0 d))
      \<and> z_coerce_int_min0 ?f (Some (JStr (CHR ''-'' # d))) = None"
    by (insert tq, elim conjE, assumption)
  have big: "\<forall>d. d \<noteq> [] \<and> list_all is_digit d \<and> int (digits_value 0 d) = 2 ^ 53 \<longrightarrow>
      js_Number ?f (Some (JStr d)) = Whole (2 ^ 53)
      \<and> z_coerce_int_min0 ?f (Some (JStr d)) = None"
    by (insert tq, elim conjE, assumption)
  have pre_create: "requireUser demo_env demo_store (Some ''tok-admin'') = Some ?admin
      \<and> pu_role ?admin = ADMIN
      \<and> itemSchema (Number_other demo_env) (JObj ?a) = Inr ?inp
      \<and> \<not> list_ex (\<lambda>i. i_id i = new_id demo_env) (items demo_store)
      \<and> \<not> owner_sku_taken demo_store (pu_id ?admin) (in_sku ?inp)"
    using demo_admin demo_parse_widget demo_widget_is_new by simp
  from create_q pre_create obtain it where
    run: "POST_items demo_env demo_store \<lparr>rq_cookie = Some ''tok-admin'', rq_body = Json (JObj ?a)\<rparr>
        = (respond 201 (BItem it), demo_store\<lparr>items := items demo_store @ [it]\<rparr>)"
    and own: "i_ownerId it = pu_id ?admin"
    and qty: "i_quantity it = int (digits_value 0 ''5'')"
    by blast
  from create_m pre_create obtain it' where
    run': "POST_items demo_env demo_store \<lparr>rq_cookie = Some ''tok-admin'', rq_body = Json (JObj ?a)\<rparr>
        = (respond 201 (BItem it'), demo_store\<lparr>items := items demo_store @ [it']\<rparr>)"
    and minStock: "i_minStock it' = int (digits_value 0 ''2'')"
    by blast
  from run run' have "it' = it" by (simp add: respond_def)
  with run own qty minStock
  have created: "\<exists>it. POST_items demo_env demo_store (demo_request ''tok-admin'' ?a)
        = (respond 201 (BItem it), demo_store\<lparr>items := items demo_store @ [it]\<rparr>)
      \<and> i_ownerId it = ''u1'' \<and> i_quantity it = 5 \<and> i_minStock it = 2"
    by (intro exI [of _ it]) (simp add: demo_request_def digit_val_def)
  have pre_update: "requireUser demo_env demo_store (Some ''tok-member'') = Some ?alex
      \<and> itemUpdateSchema (Number_other demo_env) (JObj ?u) = Inr ?p
      \<and> item_findUnique demo_store ''i3'' = Some ?old
      \<and> \<not> owner_sku_taken
            (demo_store\<lparr>items := filter (\<lambda>i. i_id i \<noteq> ''i3'') (items demo_store)\<rparr>)
            (i_ownerId ?old) (case p_sku ?p of None \<Rightarrow> i_sku ?old | Some x \<Rightarrow> x)"
    using demo_member demo_parse_patch_string demo_find_i3
    by (simp add: owner_sku_taken_def demo_items) (simp add: demo_item_def)
  from update_q pre_update obtain it2 where
    "item_findUnique (snd (PATCH_item demo_env demo_store
        \<lparr>rq_cookie = Some ''tok-member'', rq_body = Json (JObj ?u)\<rparr> ''i3'')) ''i3'' = Some it2"
    and "i_quantity it2 = int (digits_value 0 ''1'')"
    by blast
  then have updated: "\<exists>it. item_findUnique (snd (PATCH_item demo_env demo_store
        (demo_request ''tok-member'' ?u) ''i3'')) ''i3'' = Some it \<and> i_quantity it = 1"
    by (intro exI [of _ it2]) (simp add: demo_request_def digit_val_def)
  have "''5'' \<noteq> [] \<and> list_all is_digit ''5'' \<and> 0 < digits_value 0 ''5''
      \<and> int (digits_value 0 ''5'') \<le> 2 ^ 53"
    by (simp add: is_digit_def digit_val_def)
  with neg have minus: "js_Number ?f (Some (JStr ''-5'')) = Whole (- 5)
      \<and> z_coerce_int_min0 ?f (Some (JStr ''-5'')) = None"
    by (auto simp: digit_val_def)
  have "''9007199254740992'' \<noteq> [] \<and> list_all is_digit ''9007199254740992''
      \<and> int (digits_value 0 ''9007199254740992'') = 2 ^ 53"
    by (simp add: is_digit_def digit_val_def)
  with big have unsafe: "z_coerce_int_min0 ?f (Some (JStr ''9007199254740992'')) = None"
    by blast
  from same created updated minus unsafe show ?thesis by (intro conjI) simp_all
qed

end
